theory Spec2Isabelle
  imports Complex_Main
begin

section \<open>Expressions (bkl/expr.py)\<close>

text \<open>
  The classes derived from \<open>Expr\<close> become the constructors of one datatype. The
  \<open>pos\<close> attribute (source position) is left out: none of the functions below
  branches on it, it only decorates error messages.

  A \<open>ReferenceExpr\<close> holds the name of the variable and its context, the model part in
  which the reference was written. Model parts are mutable shared objects in the source;
  here a reference holds a handle (\<open>scope_ref\<close>) and the variables live in the model
  state that is passed to every function that reads them.

  \<open>BoolValueExpr\<close>, \<open>BoolExpr\<close> and \<open>IfExpr\<close> are used by the builder but their
  classes are not defined in this expr.py; they are declared from their uses in
  builder.py (\<open>BoolExpr(op, left, right)\<close>, \<open>IfExpr(cond, yes, no)\<close>).

  Python lists are untyped: \<open>all_possible_values\<close> yields a generator object in one
  branch, and that object can end up among the items of a \<open>ConcatExpr\<close>. The constructor
  \<open>GeneratorObject v\<close> stands for the not yet started generator
  \<open>all_possible_values(v)\<close>; it is not an instance of \<open>Expr\<close>.
\<close>

datatype scope_ref = ProjectRef | ModuleRef nat | TargetRef nat string

datatype bool_op = AND | OR | NOT | EQUAL | NOT_EQUAL

datatype expr =
    LiteralExpr (lit_value: string)
  | ListExpr (list_items: "expr list")
  | ConcatExpr (concat_items: "expr list")
  | NullExpr
  | ReferenceExpr (ref_var: string) (ref_context: scope_ref)
  | PathExpr (path_components: "expr list") (path_anchor: string)
  | BoolValueExpr bool
  | BoolExpr bool_op expr "expr option"
  | IfExpr (if_cond: expr) (if_yes: expr) (if_no: expr)
  | GeneratorObject expr

definition ANCHOR_SRCDIR :: string where
  "ANCHOR_SRCDIR = ''@srcdir''"

definition ANCHOR_TOP_SRCDIR :: string where
  "ANCHOR_TOP_SRCDIR = ''@top_srcdir''"

text \<open>Exceptions of the source, as values.\<close>

datatype error =
    Error string
  | ParserError string
  | IndexError
  | AssertionError
  | AttributeError
  | TypeError
  | OSError
  | IOError
  | EOFError

section \<open>The model (bkl/model.py, absent from the sources)\<close>

text \<open>
  Modelled from the spec: the data of bkl/model.py and bkl/vartypes.py. A variable has a
  name, a value and a type tag: \<open>AnyType\<close> for a free assignment, \<open>ListType\<close> after
  promotion, any other type under its name. A property has a name, a type and a default
  expression computed from the scope. The model holds the variable environment of every
  scope, the properties registered for each kind of scope, the targets of the project
  under their ids and the names of the registered target types.
\<close>

datatype vartype = AnyType | ListType vartype | ScalarType string

record variable =
  var_name :: string
  var_value :: expr
  var_type :: vartype

datatype scope_kind = ProjectKind | ModuleKind | TargetKind

record property =
  prop_name :: string
  prop_type :: vartype
  prop_default_expr :: "scope_ref \<Rightarrow> expr"

record model =
  variables :: "scope_ref \<Rightarrow> string \<rightharpoonup> variable"
  properties :: "scope_kind \<Rightarrow> string \<rightharpoonup> property"
  targets :: "string \<rightharpoonup> (scope_ref \<times> string)"
  target_types :: "string list"

text \<open>
  Modelled from the spec: the scope tree of bkl/model.py. The project is the root, a
  module is a child of the project, a target is a child of its module.
\<close>

fun parent_scope :: "scope_ref \<Rightarrow> scope_ref option" where
  "parent_scope ProjectRef = None"
| "parent_scope (ModuleRef m) = Some ProjectRef"
| "parent_scope (TargetRef m t) = Some (ModuleRef m)"

fun kind_of :: "scope_ref \<Rightarrow> scope_kind" where
  "kind_of ProjectRef = ProjectKind"
| "kind_of (ModuleRef m) = ModuleKind"
| "kind_of (TargetRef m t) = TargetKind"

text \<open>
  Modelled from the spec: \<open>ModelPart.get_variable\<close> of bkl/model.py,
  "\<open>get_variable(name)\<close> is scope-local only".
\<close>

definition get_variable :: "model \<Rightarrow> scope_ref \<Rightarrow> string \<Rightarrow> variable option" where
  "get_variable m s n = variables m s n"

text \<open>
  Modelled from the spec: \<open>ModelPart.resolve_variable\<close> of bkl/model.py,
  "\<open>resolve_variable(name)\<close> walks from the current scope toward the root, returning
  the first matching variable".
\<close>

fun scope_depth :: "scope_ref \<Rightarrow> nat" where
  "scope_depth ProjectRef = 0"
| "scope_depth (ModuleRef m) = 1"
| "scope_depth (TargetRef m t) = 2"

function resolve_variable :: "model \<Rightarrow> scope_ref \<Rightarrow> string \<Rightarrow> variable option" where
  "resolve_variable m s n =
     (case get_variable m s n of
        Some v \<Rightarrow> Some v
      | None \<Rightarrow>
          (case parent_scope s of
             None \<Rightarrow> None
           | Some p \<Rightarrow> resolve_variable m p n))"
  by pat_completeness auto
termination
  by (relation "measure (\<lambda>(m, s, n). scope_depth s)") (auto elim: parent_scope.elims)

declare resolve_variable.simps [simp del]

text \<open>
  Modelled from the spec: \<open>ModelPart.get_prop\<close> of bkl/model.py, "\<open>get_prop(name)\<close>
  returns a property descriptor registered for the current scope kind".
\<close>

definition get_prop :: "model \<Rightarrow> scope_ref \<Rightarrow> string \<Rightarrow> property option" where
  "get_prop m s n = properties m (kind_of s) n"

text \<open>
  Modelled from the spec: the constructor \<open>Variable(name, value, type)\<close> and
  \<open>ModelPart.add_variable\<close> of bkl/model.py, which enters the variable under its
  name into the variable environment of the scope.
\<close>

definition Variable :: "string \<Rightarrow> expr \<Rightarrow> vartype \<Rightarrow> variable" where
  "Variable n v t = \<lparr>var_name = n, var_value = v, var_type = t\<rparr>"

definition add_variable :: "model \<Rightarrow> scope_ref \<Rightarrow> variable \<Rightarrow> model" where
  "add_variable m s v = m\<lparr>variables := (variables m)(s := (variables m s)(var_name v \<mapsto> v))\<rparr>"

definition empty_model :: model where
  "empty_model =
     \<lparr>variables = (\<lambda>s. Map.empty), properties = (\<lambda>k. Map.empty), targets = Map.empty,
      target_types = []\<rparr>"

text \<open>
  Modelled from the spec: \<open>ModelPart.get_variable_value\<close> of bkl/model.py, the
  "late-bound lookup against a model scope" of a reference. \<open>ReferenceExpr.get_value\<close>
  documents that it throws when the reference cannot be resolved.
\<close>

definition get_variable_value :: "model \<Rightarrow> scope_ref \<Rightarrow> string \<Rightarrow> error + expr" where
  "get_variable_value m s n =
     (case resolve_variable m s n of
        Some v \<Rightarrow> Inr (var_value v)
      | None \<Rightarrow> Inl (Error ''unknown variable''))"

text \<open>
  \<open>ReferenceExpr.get_value\<close>: delegates to the context; the handler only attaches the
  position to the error and raises it again.
\<close>

definition get_value :: "model \<Rightarrow> string \<Rightarrow> scope_ref \<Rightarrow> error + expr" where
  "get_value m var ctx = get_variable_value m ctx var"

section \<open>simplify\<close>

text \<open>
  A list comprehension whose element computation may raise: the first exception, in
  list order, ends it.
\<close>

fun collect :: "(error + 'a) list \<Rightarrow> error + 'a list" where
  "collect [] = Inr []"
| "collect (Inl e # rs) = Inl e"
| "collect (Inr x # rs) = (case collect rs of Inl e \<Rightarrow> Inl e | Inr xs \<Rightarrow> Inr (x # xs))"

text \<open>
  The loop of the \<open>ConcatExpr\<close> branch. The list \<open>out\<close> of the source is never empty
  inside the loop (it starts as \<open>[items[0]]\<close>), so it is kept as the pair of its
  prefix \<open>pre\<close> and its last element \<open>l\<close>: \<open>out = pre @ [l]\<close>, and \<open>out[-1]\<close> is
  \<open>l\<close>.
\<close>

fun merge_literals :: "expr list \<Rightarrow> expr \<Rightarrow> expr list \<Rightarrow> expr list" where
  "merge_literals pre l [] = pre @ [l]"
| "merge_literals pre l (i # rest) =
     (if is_LiteralExpr i \<and> is_LiteralExpr l
      then merge_literals pre (LiteralExpr (lit_value l @ lit_value i)) rest
      else merge_literals (pre @ [l]) i rest)"

fun simplify :: "model \<Rightarrow> expr \<Rightarrow> error + expr" where
  "simplify m (ListExpr items) =
     (case collect (map (simplify m) items) of
        Inl e \<Rightarrow> Inl e
      | Inr its \<Rightarrow> Inr (ListExpr its))"
| "simplify m (PathExpr components anchor) =
     (case collect (map (simplify m) components) of
        Inl e \<Rightarrow> Inl e
      | Inr cs \<Rightarrow> Inr (PathExpr cs anchor))"
| "simplify m (ConcatExpr items) =
     (case collect (map (simplify m) items) of
        Inl e \<Rightarrow> Inl e
      | Inr [] \<Rightarrow> Inl IndexError
      | Inr (i0 # rest) \<Rightarrow> Inr (ConcatExpr (merge_literals [] i0 rest)))"
| "simplify m (ReferenceExpr var ctx) =
     (case get_value m var ctx of
        Inl err \<Rightarrow> Inl err
      | Inr ref \<Rightarrow>
          (if is_LiteralExpr (ReferenceExpr var ctx) \<or> is_ReferenceExpr (ReferenceExpr var ctx)
           then Inr ref
           else Inr (ReferenceExpr var ctx)))"
| "simplify m e = Inr e"

text \<open>
  The condition under which a second run of \<open>simplify\<close> changes nothing more: every
  reference that \<open>simplify\<close> reaches (through lists, paths and concatenations) and
  replaces has a value that \<open>simplify\<close> returns as it is.
\<close>

fun simplify_stable :: "model \<Rightarrow> expr \<Rightarrow> bool" where
  "simplify_stable m (ListExpr items) = list_all (simplify_stable m) items"
| "simplify_stable m (PathExpr components anchor) = list_all (simplify_stable m) components"
| "simplify_stable m (ConcatExpr items) = list_all (simplify_stable m) items"
| "simplify_stable m (ReferenceExpr var ctx) =
     (case get_value m var ctx of Inl err \<Rightarrow> True | Inr ref \<Rightarrow> simplify m ref = Inr ref)"
| "simplify_stable m e = True"

text \<open>
  A module with three variables, used for concrete runs: \<open>x = [a, b]\<close>,
  \<open>y = $(z)\<close> and \<open>z = c\<close>.
\<close>

definition example_module :: model where
  "example_module =
     add_variable
       (add_variable
          (add_variable empty_model (ModuleRef 0)
             (Variable ''x'' (ListExpr [LiteralExpr ''a'', LiteralExpr ''b'']) AnyType))
          (ModuleRef 0) (Variable ''y'' (ReferenceExpr ''z'' (ModuleRef 0)) AnyType))
       (ModuleRef 0) (Variable ''z'' (LiteralExpr ''c'') AnyType)"

section \<open>split\<close>

text \<open>
  \<open>str.split(sep)\<close> of Python for a separator of one character: the string is cut at
  every occurrence of the character, empty segments are kept, and the result is never
  empty.
\<close>

fun str_split_from :: "string \<Rightarrow> char \<Rightarrow> string \<Rightarrow> string list" where
  "str_split_from cur c [] = [cur]"
| "str_split_from cur c (x # xs) =
     (if x = c then cur # str_split_from [] c xs else str_split_from (cur @ [x]) c xs)"

definition str_split :: "string \<Rightarrow> char \<Rightarrow> string list" where
  "str_split s c = str_split_from [] c s"

text \<open>
  One round of the loop of the \<open>ConcatExpr\<close> branch, after \<open>i_out\<close> has been
  computed. \<open>i_out[0]\<close> raises IndexError on an empty list.
\<close>

definition join_step :: "expr list \<Rightarrow> expr list \<Rightarrow> error + expr list" where
  "join_step out i_out =
     (if out \<noteq> []
      then (case i_out of
              [] \<Rightarrow> Inl IndexError
            | i0 # rest \<Rightarrow> Inr (butlast out @ [ConcatExpr [last out, i0]] @ rest))
      else Inr i_out)"

text \<open>
  The loop itself; \<open>f\<close> is the recursive call \<open>split(i, sep)\<close>. The first
  exception ends the loop.
\<close>

fun split_loop :: "(expr \<Rightarrow> (error + expr list) option) \<Rightarrow> expr list \<Rightarrow> expr list
    \<Rightarrow> (error + expr list) option" where
  "split_loop f out [] = Some (Inr out)"
| "split_loop f out (i # items) =
     (case f i of
        None \<Rightarrow> None
      | Some (Inl err) \<Rightarrow> Some (Inl err)
      | Some (Inr i_out) \<Rightarrow>
          (case join_step out i_out of
             Inl err \<Rightarrow> Some (Inl err)
           | Inr out' \<Rightarrow> split_loop f out' items))"

text \<open>
  \<open>split\<close> follows references, and a variable may refer to itself, so the recursion
  has no bound in the source. The model counts the depth of the calls: \<open>None\<close> means
  that \<open>fuel\<close> nested calls were not enough. The message of the exception is kept
  without the formatted expression.
\<close>

fun split :: "nat \<Rightarrow> model \<Rightarrow> expr \<Rightarrow> string \<Rightarrow> (error + expr list) option" where
  "split 0 m e sep = None"
| "split (Suc fuel) m e sep =
     (if length sep \<noteq> 1 then Some (Inl AssertionError)
      else (case e of
              LiteralExpr v \<Rightarrow> Some (Inr (map LiteralExpr (str_split v (hd sep))))
            | ReferenceExpr var ctx \<Rightarrow>
                (case get_value m var ctx of
                   Inl err \<Rightarrow> Some (Inl err)
                 | Inr ref \<Rightarrow> split fuel m ref sep)
            | ConcatExpr items \<Rightarrow> split_loop (\<lambda>i. split fuel m i sep) [] items
            | GeneratorObject v \<Rightarrow> Some (Inl AttributeError)
            | _ \<Rightarrow> Some (Inl (Error ''don't know how to split expression''))))"

section \<open>all_possible_values\<close>

text \<open>
  A generator function: the result is the list of the objects that the generator yields
  when it is run to its end, or the exception that ends it. \<open>itertools.product\<close>
  runs each of its argument generators to the end, in order, before it yields its first
  tuple; the leftmost position varies slowest, as in \<open>product_lists\<close>. The
  \<open>ReferenceExpr\<close> branch yields one object: the generator that the inner call
  returns (the inner generator is not run). The constructor of \<open>ConcatExpr\<close>
  asserts that the list of items is not empty.
\<close>

fun all_possible_values :: "model \<Rightarrow> expr \<Rightarrow> error + expr list" where
  "all_possible_values m (ListExpr items) = Inl AssertionError"
| "all_possible_values m (LiteralExpr v) = Inr [LiteralExpr v]"
| "all_possible_values m (ReferenceExpr var ctx) =
     (case get_value m var ctx of
        Inl err \<Rightarrow> Inl err
      | Inr ref \<Rightarrow> Inr [GeneratorObject ref])"
| "all_possible_values m (ConcatExpr items) =
     (case collect (map (all_possible_values m) items) of
        Inl err \<Rightarrow> Inl err
      | Inr possibilities \<Rightarrow>
          (if items = [] then Inl AssertionError
           else Inr (map ConcatExpr (product_lists possibilities))))"
| "all_possible_values m (PathExpr components anchor) =
     (case collect (map (all_possible_values m) components) of
        Inl err \<Rightarrow> Inl err
      | Inr possibilities \<Rightarrow>
          Inr (map (\<lambda>i. PathExpr i anchor) (product_lists possibilities)))"
| "all_possible_values m (GeneratorObject v) = Inl AttributeError"
| "all_possible_values m e =
     Inl (Error ''cannot determine all possible values of expression'')"


section \<open>The dependency ledger (bakefile/src/dependencies.py)\<close>

text \<open>
  The three module-level dictionaries are the state of the ledger. A Python dictionary is
  an association list with one entry per key, read with \<open>map_of\<close> and written with
  \<open>dict_set\<close>. A key is the pair \<open>(bakefile, format)\<close>. The record \<open>ledger\<close>
  holds the three dictionaries with the entries that the functions of the module put
  into them.
\<close>

definition DEPS_FORMAT_VERSION :: int where
  "DEPS_FORMAT_VERSION = 4"

record DepsRecord =
  deps :: "string list"
  outputs :: "(string \<times> string) list"

type_synonym key = "string \<times> string"

record ledger =
  deps_db :: "(key \<times> DepsRecord) list"
  modtimes_db :: "(string \<times> int) list"
  cmdlines_db :: "(key \<times> string list) list"

fun dict_set :: "'k \<Rightarrow> 'v \<Rightarrow> ('k \<times> 'v) list \<Rightarrow> ('k \<times> 'v) list" where
  "dict_set k v [] = [(k, v)]"
| "dict_set k v ((k', v') # d) = (if k = k' then (k, v) # d else (k', v') # dict_set k v d)"

subsection \<open>load\<close>

text \<open>
  A ledger file is a sequence of pickled objects; \<open>cPickle.load\<close> takes the next one
  and raises EOFError at the end of the file. A file that does not exist is \<open>None\<close>
  and \<open>open\<close> raises IOError. \<open>load\<close> does not look at the class of what it
  reads, so an object is an integer or a dictionary with any of the keys and values that
  occur in a ledger, and for \<open>load\<close> each of the three globals holds such an object
  (\<open>{}\<close> at the start). \<open>needsUpdate\<close>, further down, reads the globals as the
  dictionaries that \<open>addDependency\<close>, \<open>addOutput\<close> and \<open>addCmdLine\<close> build.
\<close>

datatype dict_key = KeyPair string string | KeyStr string

datatype dict_value = VRecord DepsRecord | VInt int | VList "string list"

datatype pickled =
    PInt int
  | PDict "(dict_key \<times> dict_value) list"

record loaded_globals =
  loaded_deps_db :: pickled
  loaded_modtimes_db :: pickled
  loaded_cmdlines_db :: pickled

definition cPickle_load :: "pickled list \<Rightarrow> error + (pickled \<times> pickled list)" where
  "cPickle_load f = (case f of [] \<Rightarrow> Inl EOFError | x # rest \<Rightarrow> Inr (x, rest))"

text \<open>
  The local function \<open>__loadDb\<close>, after the object \<open>db\<close> has been read: an empty
  \<open>orig_db\<close> is replaced by \<open>db\<close>, whatever \<open>db\<close> is; otherwise every entry of
  \<open>db\<close> is written into \<open>orig_db\<close>. \<open>len\<close> of an integer and a loop over an
  integer raise TypeError.
\<close>

definition loadDb :: "pickled \<Rightarrow> pickled \<Rightarrow> error + pickled" where
  "loadDb db orig_db =
     (case orig_db of
        PInt n \<Rightarrow> Inl TypeError
      | PDict orig \<Rightarrow>
          if length orig = 0 then Inr db
          else
            (case db of
               PInt n \<Rightarrow> Inl TypeError
             | PDict d \<Rightarrow> Inr (PDict (foldl (\<lambda>orig (k, v). dict_set k v orig) orig d))))"

text \<open>
  \<open>load\<close> returns the exception, if any, the globals after the call and the part of
  the file that has not been read. Each global is assigned as soon as \<open>__loadDb\<close> has
  returned its new value.
\<close>

definition load ::
  "pickled list option \<Rightarrow> loaded_globals \<Rightarrow> error option \<times> loaded_globals \<times> pickled list" where
  "load file l =
     (case file of
        None \<Rightarrow> (Some IOError, l, [])
      | Some f \<Rightarrow>
          (case cPickle_load f of
             Inl err \<Rightarrow> (Some err, l, f)
           | Inr (version, f1) \<Rightarrow>
               if version \<noteq> PInt DEPS_FORMAT_VERSION then (Some IOError, l, f1)
               else
                 (case cPickle_load f1 of
                    Inl err \<Rightarrow> (Some err, l, f1)
                  | Inr (db, f2) \<Rightarrow>
                      (case loadDb db (loaded_deps_db l) of
                         Inl err \<Rightarrow> (Some err, l, f2)
                       | Inr deps' \<Rightarrow>
                           (let l1 = l\<lparr>loaded_deps_db := deps'\<rparr> in
                            case cPickle_load f2 of
                              Inl err \<Rightarrow> (Some err, l1, f2)
                            | Inr (db, f3) \<Rightarrow>
                                (case loadDb db (loaded_modtimes_db l1) of
                                   Inl err \<Rightarrow> (Some err, l1, f3)
                                 | Inr modtimes' \<Rightarrow>
                                     (let l2 = l1\<lparr>loaded_modtimes_db := modtimes'\<rparr> in
                                      case cPickle_load f3 of
                                        Inl err \<Rightarrow> (Some err, l2, f3)
                                      | Inr (db, f4) \<Rightarrow>
                                          (case loadDb db (loaded_cmdlines_db l2) of
                                             Inl err \<Rightarrow> (Some err, l2, f4)
                                           | Inr cmdlines' \<Rightarrow>
                                               (None, l2\<lparr>loaded_cmdlines_db := cmdlines'\<rparr>, f4)))))))))"

text \<open>
  The globals after an earlier run for \<open>proj.bkl\<close>, and a ledger file of the format
  version 3 with one entry in each dictionary.
\<close>

definition example_globals :: loaded_globals where
  "example_globals =
     \<lparr>loaded_deps_db =
        PDict [(KeyPair ''proj.bkl'' ''gnu'',
                VRecord \<lparr>deps = [''common.bkl''], outputs = [(''out.mk'', ''replace'')]\<rparr>)],
      loaded_modtimes_db = PDict [(KeyStr ''out.mk'', VInt 100)],
      loaded_cmdlines_db = PDict [(KeyPair ''proj.bkl'' ''gnu'', VList [''--foo''])]\<rparr>"

definition old_ledger_file :: "pickled list" where
  "old_ledger_file =
     [PInt 3,
      PDict [(KeyPair ''other.bkl'' ''gnu'', VRecord \<lparr>deps = [], outputs = []\<rparr>)],
      PDict [(KeyStr ''other.mk'', VInt 50)],
      PDict [(KeyPair ''other.bkl'' ''gnu'', VList [])]]"

subsection \<open>needsUpdate\<close>

text \<open>
  The file system as \<open>os.stat\<close> and \<open>os.path.isfile\<close> see it: a path has no entry, or
  it has one with its kind and its modification time. Times are compared only, so
  \<open>st_mtime\<close> (a float) and the recorded integer stamps are both read as real numbers.
\<close>

record file_stat =
  is_regular :: bool
  st_mtime :: real

type_synonym filesystem = "string \<Rightarrow> file_stat option"

definition os_path_isfile :: "filesystem \<Rightarrow> string \<Rightarrow> bool" where
  "os_path_isfile fs f = (case fs f of None \<Rightarrow> False | Some st \<Rightarrow> is_regular st)"

definition os_stat :: "filesystem \<Rightarrow> string \<Rightarrow> error + file_stat" where
  "os_stat fs f = (case fs f of None \<Rightarrow> Inl OSError | Some st \<Rightarrow> Inr st)"

text \<open>A \<open>return\<close> inside a loop ends the function; otherwise the loop state goes on.\<close>

datatype 'a flow = Return bool | Continue 'a

fun outputs_loop :: "(string \<times> int) list \<Rightarrow> filesystem \<Rightarrow> real option
    \<Rightarrow> (string \<times> string) list \<Rightarrow> real option flow" where
  "outputs_loop modtimes fs oldest_output [] = Continue oldest_output"
| "outputs_loop modtimes fs oldest_output ((f, meth) # rest) =
     (if \<not> os_path_isfile fs f then Return True
      else
        (case os_stat fs f of
           Inl err \<Rightarrow> Return True
         | Inr st \<Rightarrow>
             (let f_time = st_mtime st;
                  f_time = (case map_of modtimes f of
                              Some t \<Rightarrow> if real_of_int t > f_time then real_of_int t else f_time
                            | None \<Rightarrow> f_time);
                  oldest_output = (case oldest_output of
                                     None \<Rightarrow> Some f_time
                                   | Some t \<Rightarrow> if f_time < t then Some f_time else Some t)
              in outputs_loop modtimes fs oldest_output rest)))"

fun deps_loop :: "filesystem \<Rightarrow> real \<Rightarrow> string list \<Rightarrow> bool" where
  "deps_loop fs oldest_output [] = False"
| "deps_loop fs oldest_output (f # rest) =
     (if \<not> os_path_isfile fs f then True
      else
        (case os_stat fs f of
           Inl err \<Rightarrow> True
         | Inr st \<Rightarrow>
             if oldest_output < st_mtime st then True
             else deps_loop fs oldest_output rest))"

text \<open>
  \<open>needsUpdate\<close> returns 1 or 0, read as a truth value. \<open>os.stat(bakefile)\<close> is not
  guarded and raises OSError when the bakefile is not there.
\<close>

definition needsUpdate :: "ledger \<Rightarrow> filesystem \<Rightarrow> string \<Rightarrow> string \<Rightarrow> string list \<Rightarrow> error + bool" where
  "needsUpdate l fs bakefile format cmdline =
     (let key = (bakefile, format) in
      case map_of (deps_db l) key of
        None \<Rightarrow> Inr True
      | Some info \<Rightarrow>
          (case map_of (cmdlines_db l) key of
             None \<Rightarrow> Inr True
           | Some recorded \<Rightarrow>
               if cmdline \<noteq> recorded then Inr True
               else
                 (case os_stat fs bakefile of
                    Inl err \<Rightarrow> Inl err
                  | Inr st \<Rightarrow>
                      (let bakefile_time = st_mtime st in
                       case outputs_loop (modtimes_db l) fs None (outputs info) of
                         Return r \<Rightarrow> Inr r
                       | Continue None \<Rightarrow> Inr True
                       | Continue (Some oldest_output) \<Rightarrow>
                           if oldest_output < bakefile_time then Inr True
                           else Inr (deps_loop fs oldest_output (deps info))))))"

subsection \<open>The staleness decision in the words of the specification\<close>

text \<open>
  The effective time of an output file is the maximum of its recorded modification time
  and its modification time on disk (the time on disk when nothing is recorded).
\<close>

definition effective_time :: "ledger \<Rightarrow> filesystem \<Rightarrow> string \<Rightarrow> real option" where
  "effective_time l fs f =
     (case fs f of
        None \<Rightarrow> None
      | Some st \<Rightarrow>
          (case map_of (modtimes_db l) f of
             None \<Rightarrow> Some (st_mtime st)
           | Some t \<Rightarrow> Some (max (real_of_int t) (st_mtime st))))"

fun oldest :: "real list \<Rightarrow> real option" where
  "oldest [] = None"
| "oldest (t # ts) = (case oldest ts of None \<Rightarrow> Some t | Some u \<Rightarrow> Some (min t u))"

definition oldest_effective :: "ledger \<Rightarrow> filesystem \<Rightarrow> DepsRecord \<Rightarrow> real option" where
  "oldest_effective l fs info =
     oldest (List.map_filter (\<lambda>(f, meth). effective_time l fs f) (outputs info))"

text \<open>The six conditions of the specification, each of which asks for a regeneration.\<close>

definition key_unknown :: "ledger \<Rightarrow> key \<Rightarrow> bool" where
  "key_unknown l k = (map_of (deps_db l) k = None \<or> map_of (cmdlines_db l) k = None)"

definition cmdline_differs :: "ledger \<Rightarrow> key \<Rightarrow> string list \<Rightarrow> bool" where
  "cmdline_differs l k cmdline =
     (case map_of (cmdlines_db l) k of None \<Rightarrow> False | Some recorded \<Rightarrow> recorded \<noteq> cmdline)"

definition output_missing :: "filesystem \<Rightarrow> DepsRecord \<Rightarrow> bool" where
  "output_missing fs info = list_ex (\<lambda>(f, meth). \<not> os_path_isfile fs f) (outputs info)"

definition dependency_missing :: "filesystem \<Rightarrow> DepsRecord \<Rightarrow> bool" where
  "dependency_missing fs info = list_ex (\<lambda>f. \<not> os_path_isfile fs f) (deps info)"

definition older_than :: "filesystem \<Rightarrow> real option \<Rightarrow> string \<Rightarrow> bool" where
  "older_than fs t f =
     (case t of
        None \<Rightarrow> False
      | Some t_out \<Rightarrow> (case fs f of None \<Rightarrow> False | Some st \<Rightarrow> t_out < st_mtime st))"

definition output_older_than_bakefile :: "ledger \<Rightarrow> filesystem \<Rightarrow> DepsRecord \<Rightarrow> string \<Rightarrow> bool" where
  "output_older_than_bakefile l fs info bakefile = older_than fs (oldest_effective l fs info) bakefile"

definition output_older_than_dependency :: "ledger \<Rightarrow> filesystem \<Rightarrow> DepsRecord \<Rightarrow> bool" where
  "output_older_than_dependency l fs info =
     list_ex (older_than fs (oldest_effective l fs info)) (deps info)"

definition spec_needs_update :: "ledger \<Rightarrow> filesystem \<Rightarrow> string \<Rightarrow> string \<Rightarrow> string list \<Rightarrow> bool" where
  "spec_needs_update l fs bakefile format cmdline =
     (let k = (bakefile, format) in
      key_unknown l k \<or> cmdline_differs l k cmdline \<or>
      (case map_of (deps_db l) k of
         None \<Rightarrow> False
       | Some info \<Rightarrow>
           output_missing fs info \<or> dependency_missing fs info \<or>
           output_older_than_bakefile l fs info bakefile \<or>
           output_older_than_dependency l fs info))"

text \<open>
  A ledger and a file system for concrete runs. The key \<open>(proj.bkl, gnu)\<close> has the
  output \<open>out.mk\<close>, recorded at time 100 and touched on disk at 110, and the bakefile
  was written at 105; the key \<open>(empty.bkl, gnu)\<close> has no output at all.
\<close>

definition example_ledger :: ledger where
  "example_ledger =
     \<lparr>deps_db = [((''proj.bkl'', ''gnu''), \<lparr>deps = [''common.bkl''], outputs = [(''out.mk'', ''replace'')]\<rparr>),
                 ((''empty.bkl'', ''gnu''), \<lparr>deps = [], outputs = []\<rparr>)],
      modtimes_db = [(''out.mk'', 100)],
      cmdlines_db = [((''proj.bkl'', ''gnu''), [''--foo'']), ((''empty.bkl'', ''gnu''), [''--foo''])]\<rparr>"

definition example_filesystem :: filesystem where
  "example_filesystem =
     [''proj.bkl'' \<mapsto> \<lparr>is_regular = True, st_mtime = 105\<rparr>,
      ''empty.bkl'' \<mapsto> \<lparr>is_regular = True, st_mtime = 105\<rparr>,
      ''common.bkl'' \<mapsto> \<lparr>is_regular = True, st_mtime = 90\<rparr>,
      ''out.mk'' \<mapsto> \<lparr>is_regular = True, st_mtime = 110\<rparr>]"

text \<open>The minimum of two optional times; \<open>None\<close> is "no time yet".\<close>

definition opt_min :: "real option \<Rightarrow> real option \<Rightarrow> real option" where
  "opt_min a b = (case a of None \<Rightarrow> b | Some x \<Rightarrow> (case b of None \<Rightarrow> Some x | Some y \<Rightarrow> Some (min x y)))"

section \<open>The builder (bkl/interpreter/builder.py)\<close>

subsection \<open>The syntax tree (bkl/parser/ast.py, absent from the sources)\<close>

text \<open>
  The node classes are declared from their uses in builder.py: the classes that
  \<open>_build_expression\<close> and \<open>_build_bool_expression\<close> test for, with the attributes they
  read, and the classes in \<open>_ast_dispatch\<close>. \<open>FilesListNode\<close>, \<open>ConfigurationNode\<close>
  and \<open>SrcdirNode\<close> are left out: their handlers rest on \<open>enum_possible_values\<close>, on
  the configurations of the project and on \<open>os.path\<close>, none of which is at hand. The
  attribute \<open>append\<close> of an assignment is true for an \<open>AppendNode\<close>.
\<close>

datatype ast_expr =
    LiteralNode string
  | BoolvalNode bool
  | VarReferenceNode string
  | ListNode "ast_expr list"
  | ConcatNode "ast_expr list"
  | NotNode ast_expr
  | AndNode ast_expr ast_expr
  | OrNode ast_expr ast_expr
  | EqualNode ast_expr ast_expr
  | NotEqualNode ast_expr ast_expr

datatype node =
    AssignmentNode string ast_expr
  | AppendNode string ast_expr
  | TargetNode string string "node list"
  | IfNode ast_expr "node list"
  | SubmoduleNode string
  | NilNode

text \<open>
  The state of a \<open>Builder\<close>: its context, the stack of conditions of
  \<open>CondTrackingMixin\<close>, the callback for submodules, and with them the model that its
  context points into and the warnings it has logged. The callback stands for the
  interpreter that loads the submodule; it receives the file name of the node.
\<close>

record builder =
  builder_context :: scope_ref
  if_stack :: "expr list"
  on_submodule_callback :: "string \<Rightarrow> model \<Rightarrow> error option \<times> model"
  the_model :: model
  warnings :: "string list"

text \<open>
  Modelled from the spec: \<open>CondTrackingMixin\<close> (absent from the sources), the
  condition stack with \<open>push\<close>, \<open>pop\<close>, \<open>reset\<close>, which saves and clears the
  stack, and \<open>restore\<close>; the active condition is none for an empty stack, the
  condition itself for one enclosing block, and the conjunction of the conditions of all
  enclosing blocks otherwise.
\<close>

definition active_if_cond :: "builder \<Rightarrow> expr option" where
  "active_if_cond b =
     (case if_stack b of
        [] \<Rightarrow> None
      | c # cs \<Rightarrow> Some (foldl (\<lambda>acc x. BoolExpr AND acc (Some x)) c cs))"

definition push_cond :: "expr \<Rightarrow> builder \<Rightarrow> builder" where
  "push_cond c b = b\<lparr>if_stack := if_stack b @ [c]\<rparr>"

definition pop_cond :: "builder \<Rightarrow> builder" where
  "pop_cond b = b\<lparr>if_stack := butlast (if_stack b)\<rparr>"

definition reset_cond_stack :: "builder \<Rightarrow> expr list \<times> builder" where
  "reset_cond_stack b = (if_stack b, b\<lparr>if_stack := []\<rparr>)"

definition restore_cond_stack :: "expr list \<Rightarrow> builder \<Rightarrow> builder" where
  "restore_cond_stack condstack b = b\<lparr>if_stack := condstack\<rparr>"

subsection \<open>Expressions from the syntax tree\<close>

text \<open>
  \<open>_build_expression\<close> and \<open>_build_bool_expression\<close>. The context of the builder is
  the only part of the state they read. The constructor of \<open>ConcatExpr\<close> asserts that
  there is an item. \<open>_build_bool_expression\<close> reads \<open>ast.left\<close>, which a node that
  is not a \<open>BoolNode\<close> does not have (AttributeError); \<open>_build_expression\<close> never
  hands it such a node.
\<close>

fun build_expression :: "scope_ref \<Rightarrow> ast_expr \<Rightarrow> error + expr"
  and build_bool_expression :: "scope_ref \<Rightarrow> ast_expr \<Rightarrow> error + expr" where
  "build_expression ctx (LiteralNode text) = Inr (LiteralExpr text)"
| "build_expression ctx (BoolvalNode v) = Inr (BoolValueExpr v)"
| "build_expression ctx (VarReferenceNode var) = Inr (ReferenceExpr var ctx)"
| "build_expression ctx (ListNode vals) =
     (case collect (map (build_expression ctx) vals) of
        Inl err \<Rightarrow> Inl err
      | Inr items \<Rightarrow> Inr (ListExpr items))"
| "build_expression ctx (ConcatNode vals) =
     (case collect (map (build_expression ctx) vals) of
        Inl err \<Rightarrow> Inl err
      | Inr items \<Rightarrow> if items = [] then Inl AssertionError else Inr (ConcatExpr items))"
| "build_expression ctx (NotNode l) = build_bool_expression ctx (NotNode l)"
| "build_expression ctx (AndNode l r) = build_bool_expression ctx (AndNode l r)"
| "build_expression ctx (OrNode l r) = build_bool_expression ctx (OrNode l r)"
| "build_expression ctx (EqualNode l r) = build_bool_expression ctx (EqualNode l r)"
| "build_expression ctx (NotEqualNode l r) = build_bool_expression ctx (NotEqualNode l r)"
| "build_bool_expression ctx (NotNode l) =
     (case build_expression ctx l of
        Inl err \<Rightarrow> Inl err
      | Inr left \<Rightarrow> Inr (BoolExpr NOT left None))"
| "build_bool_expression ctx (AndNode l r) =
     (case build_expression ctx l of
        Inl err \<Rightarrow> Inl err
      | Inr left \<Rightarrow>
          (case build_expression ctx r of
             Inl err \<Rightarrow> Inl err
           | Inr right \<Rightarrow> Inr (BoolExpr AND left (Some right))))"
| "build_bool_expression ctx (OrNode l r) =
     (case build_expression ctx l of
        Inl err \<Rightarrow> Inl err
      | Inr left \<Rightarrow>
          (case build_expression ctx r of
             Inl err \<Rightarrow> Inl err
           | Inr right \<Rightarrow> Inr (BoolExpr OR left (Some right))))"
| "build_bool_expression ctx (EqualNode l r) =
     (case build_expression ctx l of
        Inl err \<Rightarrow> Inl err
      | Inr left \<Rightarrow>
          (case build_expression ctx r of
             Inl err \<Rightarrow> Inl err
           | Inr right \<Rightarrow> Inr (BoolExpr EQUAL left (Some right))))"
| "build_bool_expression ctx (NotEqualNode l r) =
     (case build_expression ctx l of
        Inl err \<Rightarrow> Inl err
      | Inr left \<Rightarrow>
          (case build_expression ctx r of
             Inl err \<Rightarrow> Inl err
           | Inr right \<Rightarrow> Inr (BoolExpr NOT_EQUAL left (Some right))))"
| "build_bool_expression ctx other = Inl AttributeError"

subsection \<open>Assignments\<close>

text \<open>
  Modelled from the spec: \<open>Variable.from_property\<close> of bkl/model.py, which makes the
  variable of a property: "its type equals the property's type".
\<close>

definition Variable_from_property :: "property \<Rightarrow> expr \<Rightarrow> variable" where
  "Variable_from_property prop propval = Variable (prop_name prop) propval (prop_type prop)"

text \<open>
  \<open>on_assignment\<close> works on two variable objects, \<open>var\<close> (the variable of the current
  scope) and \<open>previous_value\<close> (the same object, or a variable of an enclosing scope).
  Here they are values. \<open>var\<close> is changed only at the end (\<open>var.type = ...\<close>,
  \<open>var.set_value\<close>), after the last read of \<open>previous_value.value\<close>, so reading the
  value of \<open>previous_value\<close> from the copy gives what the source reads from the object.
  The changed \<open>var\<close> is written back to the scope under its name.

  The first part: the lookup of the variable, of its previous value and of the property.
\<close>

definition lookup_for_assignment ::
  "model \<Rightarrow> scope_ref \<Rightarrow> string \<Rightarrow> bool \<Rightarrow> bool \<Rightarrow> variable option \<times> variable option \<times> model" where
  "lookup_for_assignment m ctx varname is_append has_cond =
     (let var = get_variable m ctx varname;
          previous_value = (case var of None \<Rightarrow> resolve_variable m ctx varname | Some v \<Rightarrow> Some v)
      in case var of
           Some v \<Rightarrow> (var, previous_value, m)
         | None \<Rightarrow>
             (case get_prop m ctx varname of
                None \<Rightarrow> (None, previous_value, m)
              | Some prop \<Rightarrow>
                  (let propval = (if is_append \<or> has_cond then prop_default_expr prop ctx else NullExpr);
                       v = Variable_from_property prop propval
                   in (Some v,
                       (case previous_value of None \<Rightarrow> Some v | Some p \<Rightarrow> Some p),
                       add_variable m ctx v))))"

text \<open>
  The second part: the value reflects the active condition, if there is one. For a
  conditional append of a list the source makes the items \<open>IfExpr(cond, yes=i,
  no=NullExpr())\<close> and then calls \<open>ListExpr(ifs, pos=value.pos)\<close>; the constructor
  \<open>ListExpr.__init__(self, items)\<close> of expr.py takes no \<open>pos\<close>, so the call raises
  TypeError, whatever the items are.
\<close>

definition conditional_value :: "expr option \<Rightarrow> bool \<Rightarrow> expr \<Rightarrow> variable option \<Rightarrow> error + expr" where
  "conditional_value cond is_append val previous_value =
     (case cond of
        None \<Rightarrow> Inr val
      | Some c \<Rightarrow>
          if is_append then
            (case val of
               ListExpr items \<Rightarrow> Inl TypeError
             | _ \<Rightarrow> Inr (IfExpr c val NullExpr))
          else
            Inr (IfExpr c val (case previous_value of Some p \<Rightarrow> var_value p | None \<Rightarrow> NullExpr)))"

text \<open>
  The third part: the variable is created if necessary. The message of the error is the
  text before the quoted name, followed by the name.
\<close>

definition create_if_necessary ::
  "model \<Rightarrow> scope_ref \<Rightarrow> string \<Rightarrow> bool \<Rightarrow> expr \<Rightarrow> variable option \<Rightarrow> variable option
     \<Rightarrow> error + (variable \<times> model)" where
  "create_if_necessary m ctx varname is_append val var previous_value =
     (case var of
        Some v \<Rightarrow> Inr (v, m)
      | None \<Rightarrow>
          if is_append \<and> previous_value = None then Inl (ParserError (''unknown variable '' @ varname))
          else
            (let v = (case previous_value of
                        Some p \<Rightarrow> Variable varname (var_value p) (var_type p)
                      | None \<Rightarrow> Variable varname val AnyType)
             in Inr (v, add_variable m ctx v)))"

text \<open>The last part: the value of the variable is modified.\<close>

definition modify_value ::
  "model \<Rightarrow> scope_ref \<Rightarrow> string \<Rightarrow> bool \<Rightarrow> expr \<Rightarrow> variable \<Rightarrow> variable option \<Rightarrow> error + model" where
  "modify_value m ctx varname is_append val var previous_value =
     (if is_append then
        (case previous_value of
           None \<Rightarrow> Inl AssertionError
         | Some p \<Rightarrow>
             (case (case var_type var of
                      ListType t \<Rightarrow> Inr var
                    | AnyType \<Rightarrow> Inr (var\<lparr>var_type := ListType AnyType\<rparr>)
                    | _ \<Rightarrow> Inl (ParserError (''cannot append to non-list variable '' @ varname))) of
                Inl err \<Rightarrow> Inl err
              | Inr var \<Rightarrow>
                  (let new_values = (case val of ListExpr items \<Rightarrow> items | _ \<Rightarrow> [val]);
                       val = (case var_value p of
                                ListExpr items \<Rightarrow> ListExpr (items @ new_values)
                              | pv \<Rightarrow> ListExpr ([pv] @ new_values))
                   in Inr (add_variable m ctx (var\<lparr>var_value := val\<rparr>)))))
      else Inr (add_variable m ctx (var\<lparr>var_value := val\<rparr>)))"

text \<open>
  The four parts in the order of the source, for a value that has been built; every
  exception leaves the state that the parts before it have made.
\<close>

definition assign_value :: "string \<Rightarrow> bool \<Rightarrow> expr \<Rightarrow> builder \<Rightarrow> error option \<times> builder" where
  "assign_value varname is_append val b =
     (let ctx = builder_context b;
          has_cond = (active_if_cond b \<noteq> None);
          (var, previous_value, m) =
             lookup_for_assignment (the_model b) ctx varname is_append has_cond;
          b = b\<lparr>the_model := m\<rparr>
      in case conditional_value (active_if_cond b) is_append val previous_value of
           Inl err \<Rightarrow> (Some err, b)
         | Inr val \<Rightarrow>
             (case create_if_necessary m ctx varname is_append val var previous_value of
                Inl err \<Rightarrow> (Some err, b)
              | Inr (var, m) \<Rightarrow>
                  (let b = b\<lparr>the_model := m\<rparr> in
                   case modify_value m ctx varname is_append val var previous_value of
                     Inl err \<Rightarrow> (Some err, b)
                   | Inr m \<Rightarrow> (None, b\<lparr>the_model := m\<rparr>))))"

text \<open>
  \<open>on_assignment\<close>: the value is built, a name that begins with an underscore is
  warned about (\<open>varname[0]\<close> raises IndexError for an empty name), and the
  assignment is made.
\<close>

definition on_assignment :: "string \<Rightarrow> ast_expr \<Rightarrow> bool \<Rightarrow> builder \<Rightarrow> error option \<times> builder" where
  "on_assignment varname value_ast is_append b =
     (case build_expression (builder_context b) value_ast of
        Inl err \<Rightarrow> (Some err, b)
      | Inr val \<Rightarrow>
          (case varname of
             [] \<Rightarrow> (Some IndexError, b)
           | c0 # cs \<Rightarrow>
               assign_value varname is_append val
                 (if c0 = CHR ''_'' then b\<lparr>warnings := warnings b @ [varname]\<rparr> else b)))"

subsection \<open>Targets\<close>

text \<open>
  Modelled from the spec: \<open>Project.has_target\<close>, \<open>TargetType.get\<close>, the constructor
  \<open>Target\<close> and \<open>set_property_value\<close> (bkl/model.py and bkl/api.py, absent from
  the sources). A target id is unique in the whole project; a target is created under
  the current module, and a context that is not a module is reported as an assertion
  failure; \<open>TargetType.get\<close> raises KeyError for a name that is not registered.
\<close>

definition has_target :: "model \<Rightarrow> string \<Rightarrow> bool" where
  "has_target m name = (targets m name \<noteq> None)"

definition TargetType_get :: "model \<Rightarrow> string \<Rightarrow> string option" where
  "TargetType_get m type_name = (if type_name \<in> set (target_types m) then Some type_name else None)"

definition new_Target :: "model \<Rightarrow> scope_ref \<Rightarrow> string \<Rightarrow> string \<Rightarrow> error + (scope_ref \<times> model)" where
  "new_Target m parent name target_type =
     (case parent of
        ModuleRef k \<Rightarrow>
          Inr (TargetRef k name, m\<lparr>targets := (targets m)(name \<mapsto> (TargetRef k name, target_type))\<rparr>)
      | _ \<Rightarrow> Inl AssertionError)"

definition set_property_value :: "model \<Rightarrow> scope_ref \<Rightarrow> string \<Rightarrow> expr \<Rightarrow> model" where
  "set_property_value m s name val =
     (case get_variable m s name of
        Some v \<Rightarrow> add_variable m s (v\<lparr>var_value := val\<rparr>)
      | None \<Rightarrow>
          add_variable m s
            (Variable name val (case get_prop m s name of Some p \<Rightarrow> prop_type p | None \<Rightarrow> AnyType)))"

subsection \<open>The traversal\<close>

text \<open>
  \<open>_handle_node\<close> with the handlers it dispatches to (\<open>on_assignment\<close> above,
  \<open>on_target\<close>, \<open>on_if\<close>, \<open>on_submodule\<close> and the empty handler of \<open>NilNode\<close>),
  \<open>handle_children\<close>, and the loop of \<open>handle_children\<close> over the children. A handler
  returns the exception it raised, if any, and the state it left. In
  \<open>handle_children\<close> the \<open>finally\<close> clause runs on both ways out; \<open>on_if\<close> and
  \<open>on_target\<close> have no such clause, and an exception leaves their condition stack as
  it is.
\<close>

fun handle_node :: "node \<Rightarrow> builder \<Rightarrow> error option \<times> builder"
  and handle_children :: "node list \<Rightarrow> scope_ref \<Rightarrow> builder \<Rightarrow> error option \<times> builder"
  and for_children :: "node list \<Rightarrow> builder \<Rightarrow> error option \<times> builder" where
  "handle_node (AssignmentNode var val) b = on_assignment var val False b"
| "handle_node (AppendNode var val) b = on_assignment var val True b"
| "handle_node (TargetNode name type_name content) b =
     (if has_target (the_model b) name
      then (Some (ParserError (''target with ID '' @ name @ '' already exists'')), b)
      else
        (case TargetType_get (the_model b) type_name of
           None \<Rightarrow> (Some (ParserError (''unknown target type '' @ type_name)), b)
         | Some target_type \<Rightarrow>
             (case new_Target (the_model b) (builder_context b) name target_type of
                Inl err \<Rightarrow> (Some err, b)
              | Inr (target, m) \<Rightarrow>
                  (let m = (case active_if_cond b of
                              Some c \<Rightarrow> set_property_value m target ''_condition'' c
                            | None \<Rightarrow> m);
                       b = b\<lparr>the_model := m\<rparr>;
                       (condstack, b) = reset_cond_stack b
                   in case handle_children content target b of
                        (Some err, b) \<Rightarrow> (Some err, b)
                      | (None, b) \<Rightarrow> (None, restore_cond_stack condstack b)))))"
| "handle_node (IfNode cond content) b =
     (case build_expression (builder_context b) cond of
        Inl err \<Rightarrow> (Some err, b)
      | Inr c \<Rightarrow>
          (let b = push_cond c b in
           case handle_children content (builder_context b) b of
             (Some err, b) \<Rightarrow> (Some err, b)
           | (None, b) \<Rightarrow> (None, pop_cond b)))"
| "handle_node (SubmoduleNode file) b =
     (if active_if_cond b \<noteq> None
      then (Some (ParserError ''conditionally included submodules not supported yet''), b)
      else
        (case on_submodule_callback b file (the_model b) of
           (Some err, m) \<Rightarrow> (Some err, b\<lparr>the_model := m\<rparr>)
         | (None, m) \<Rightarrow> (None, b\<lparr>the_model := m\<rparr>)))"
| "handle_node NilNode b = (None, b)"
| "handle_children children ctx b =
     (let old_ctxt = builder_context b;
          b = b\<lparr>builder_context := ctx\<rparr>;
          (result, b) = for_children children b
      in (result, b\<lparr>builder_context := old_ctxt\<rparr>))"
| "for_children [] b = (None, b)"
| "for_children (n # rest) b =
     (case handle_node n b of
        (Some err, b) \<Rightarrow> (Some err, b)
      | (None, b) \<Rightarrow> for_children rest b)"






text \<open>The value of a variable of a scope, as the model holds it.\<close>

definition value_of :: "model \<Rightarrow> scope_ref \<Rightarrow> string \<Rightarrow> expr option" where
  "value_of m s n = map_option var_value (get_variable m s n)"

text \<open>
  The contexts in which the loop of \<open>handle_children\<close> hands the children to
  \<open>_handle_node\<close>, one for every child it reaches.
\<close>

fun contexts_seen :: "node list \<Rightarrow> builder \<Rightarrow> scope_ref list" where
  "contexts_seen [] b = []"
| "contexts_seen (n # rest) b =
     builder_context b #
       (case handle_node n b of
          (Some err, b') \<Rightarrow> []
        | (None, b') \<Rightarrow> contexts_seen rest b')"

section \<open>Properties of simplify\<close>

lemmas example_module_defs =
  example_module_def add_variable_def empty_model_def Variable_def
  get_value_def get_variable_value_def get_variable_def resolve_variable.simps

text \<open>
  The \<open>ReferenceExpr\<close> branch tests the class of \<open>e\<close>, the reference itself, where
  its comment speaks of the referenced value: the test always succeeds and the value is
  returned whatever it is.
\<close>

lemma simplify_reference_any_value:
  "get_value m var ctx = Inr v \<Longrightarrow> simplify m (ReferenceExpr var ctx) = Inr v"
  by simp

text \<open>
  C1. A reference to a variable whose value is a list: the claim (and the comment in the
  source) says \<open>simplify\<close> keeps the reference; the code returns the list.
\<close>

theorem simplify_reference_to_list:
  "simplify example_module (ReferenceExpr ''x'' (ModuleRef 0))
     = Inr (ListExpr [LiteralExpr ''a'', LiteralExpr ''b''])
   \<and> simplify example_module (ReferenceExpr ''x'' (ModuleRef 0))
     \<noteq> Inr (ReferenceExpr ''x'' (ModuleRef 0))"
  by (simp add: example_module_defs)

subsection \<open>Idempotence\<close>

lemma collect_Inr_iff: "collect rs = Inr ys \<longleftrightarrow> rs = map Inr ys"
proof (induction rs arbitrary: ys rule: collect.induct)
  case 1
  then show ?case by auto
next
  case (2 e rs)
  then show ?case by auto
next
  case (3 x rs)
  show ?case
  proof (cases "collect rs")
    case (Inl e)
    have "rs \<noteq> map Inr zs" for zs using "3.IH" [of zs] Inl by auto
    then show ?thesis using Inl by (cases ys) auto
  next
    case (Inr xs)
    then have "rs = map Inr xs" using "3.IH" by simp
    then show ?thesis using Inr by (cases ys) (auto simp: inj_map_eq_map)
  qed
qed

lemma collect_fixpoints:
  assumes "\<forall>y\<in>set ys. f y = Inr y"
  shows "collect (map f ys) = Inr ys"
  using assms by (simp add: collect_Inr_iff)

lemma collect_map_image:
  assumes "collect (map f xs) = Inr ys" and "y \<in> set ys"
  shows "\<exists>x\<in>set xs. f x = Inr y"
proof -
  from assms(1) have eq: "map f xs = map Inr ys" by (simp add: collect_Inr_iff)
  from assms(2) have "Inr y \<in> set (map Inr ys)" by simp
  with eq have "Inr y \<in> set (map f xs)" by simp
  then show ?thesis by auto
qed

lemma merge_literals_fuse:
  "is_LiteralExpr i \<Longrightarrow> is_LiteralExpr l \<Longrightarrow>
   merge_literals pre l (i # rest) = merge_literals pre (LiteralExpr (lit_value l @ lit_value i)) rest"
  by simp

lemma merge_literals_keep:
  "\<not> (is_LiteralExpr i \<and> is_LiteralExpr l) \<Longrightarrow>
   merge_literals pre l (i # rest) = merge_literals (pre @ [l]) i rest"
  by auto

lemma merge_literals_pre: "merge_literals pre l rest = pre @ merge_literals [] l rest"
proof (induction rest arbitrary: pre l)
  case Nil
  then show ?case by simp
next
  case (Cons i rest)
  show ?case
  proof (cases "is_LiteralExpr i \<and> is_LiteralExpr l")
    case True
    then show ?thesis using Cons.IH [of pre] by (simp only: merge_literals_fuse)
  next
    case False
    have "merge_literals pre l (i # rest) = merge_literals (pre @ [l]) i rest"
      using False by (rule merge_literals_keep)
    also have "\<dots> = (pre @ [l]) @ merge_literals [] i rest" by (rule Cons.IH)
    also have "\<dots> = pre @ ([l] @ merge_literals [] i rest)" by simp
    also have "\<dots> = pre @ merge_literals [l] i rest" using Cons.IH [of "[l]" i] by simp
    also have "\<dots> = pre @ merge_literals [] l (i # rest)"
      using merge_literals_keep [OF False, of "[]" rest] by simp
    finally show ?thesis .
  qed
qed

lemma merge_literals_keep_Cons:
  "\<not> (is_LiteralExpr i \<and> is_LiteralExpr l) \<Longrightarrow>
   merge_literals [] l (i # rest) = l # merge_literals [] i rest"
  using merge_literals_keep [of i l "[]" rest] merge_literals_pre [of "[l]" i rest] by simp

lemma merge_literals_head:
  "\<not> is_LiteralExpr l \<Longrightarrow> \<exists>os. merge_literals [] l rest = l # os"
proof (cases rest)
  case Nil
  then show ?thesis by simp
next
  case (Cons i r)
  assume "\<not> is_LiteralExpr l"
  then have "\<not> (is_LiteralExpr i \<and> is_LiteralExpr l)" by simp
  from merge_literals_keep_Cons [OF this] show ?thesis using Cons by simp
qed

lemma merge_literals_idem:
  "\<exists>o1 os. merge_literals [] l rest = o1 # os \<and> merge_literals [] o1 os = o1 # os"
proof (induction rest arbitrary: l)
  case Nil
  then show ?case by simp
next
  case (Cons i rest)
  show ?case
  proof (cases "is_LiteralExpr i \<and> is_LiteralExpr l")
    case True
    then show ?thesis using Cons.IH [of "LiteralExpr (lit_value l @ lit_value i)"]
      by (simp only: merge_literals_fuse)
  next
    case False
    from Cons.IH [of i] obtain o1 os where
      o: "merge_literals [] i rest = o1 # os" "merge_literals [] o1 os = o1 # os" by blast
    have step: "merge_literals [] l (i # rest) = l # o1 # os"
      using merge_literals_keep_Cons [OF False, of rest] o(1) by simp
    have nolit: "\<not> (is_LiteralExpr o1 \<and> is_LiteralExpr l)"
    proof (cases "is_LiteralExpr l")
      case True
      with False have ni: "\<not> is_LiteralExpr i" by simp
      from merge_literals_head [OF ni, of rest] o(1) have "o1 = i" by auto
      with ni show ?thesis by simp
    next
      case False
      then show ?thesis by simp
    qed
    have "merge_literals [] l (o1 # os) = l # o1 # os"
      using merge_literals_keep_Cons [OF nolit, of os] o(2) by simp
    with step show ?thesis by simp
  qed
qed

lemma merge_literals_pred:
  assumes "\<And>s. P (LiteralExpr s)" and "P l" and "\<forall>x\<in>set rest. P x" and "\<forall>x\<in>set pre. P x"
  shows "\<forall>x\<in>set (merge_literals pre l rest). P x"
  using assms(2-)
proof (induction rest arbitrary: pre l)
  case Nil
  then show ?case by simp
next
  case (Cons i rest)
  show ?case
  proof (cases "is_LiteralExpr i \<and> is_LiteralExpr l")
    case True
    have "\<forall>x\<in>set (merge_literals pre (LiteralExpr (lit_value l @ lit_value i)) rest). P x"
      using Cons.prems assms(1) by (intro Cons.IH) simp_all
    then show ?thesis using True by (simp only: merge_literals_fuse)
  next
    case False
    have "\<forall>x\<in>set (merge_literals (pre @ [l]) i rest). P x"
      using Cons.prems by (intro Cons.IH) simp_all
    then show ?thesis by (simp only: merge_literals_keep [OF False])
  qed
qed

lemma simplify_children_fixpoints:
  assumes IH: "\<And>x e'. x \<in> set xs \<Longrightarrow> simplify_stable m x \<Longrightarrow> simplify m x = Inr e' \<Longrightarrow> simplify m e' = Inr e'"
    and st: "list_all (simplify_stable m) xs"
    and c: "collect (map (simplify m) xs) = Inr ys"
  shows "\<forall>y\<in>set ys. simplify m y = Inr y"
proof
  fix y assume y: "y \<in> set ys"
  from collect_map_image [OF c y] obtain x where x: "x \<in> set xs" "simplify m x = Inr y"
    by (elim bexE)
  from st x(1) have sx: "simplify_stable m x" unfolding list_all_iff by (rule bspec)
  show "simplify m y = Inr y" by (rule IH [OF x(1) sx x(2)])
qed

lemma simplify_ListExpr_fixpoint:
  "\<forall>y\<in>set its. simplify m y = Inr y \<Longrightarrow> simplify m (ListExpr its) = Inr (ListExpr its)"
  by (simp add: collect_fixpoints)

lemma simplify_PathExpr_fixpoint:
  "\<forall>y\<in>set cs. simplify m y = Inr y \<Longrightarrow> simplify m (PathExpr cs a) = Inr (PathExpr cs a)"
  by (simp add: collect_fixpoints)

lemma simplify_ConcatExpr_fixpoint:
  assumes "\<forall>y\<in>set (i0 # rest). simplify m y = Inr y"
  shows "simplify m (ConcatExpr (merge_literals [] i0 rest)) = Inr (ConcatExpr (merge_literals [] i0 rest))"
proof -
  obtain o1 os where o: "merge_literals [] i0 rest = o1 # os" "merge_literals [] o1 os = o1 # os"
    using merge_literals_idem by blast
  have "\<forall>y\<in>set (merge_literals [] i0 rest). simplify m y = Inr y"
    using assms by (intro merge_literals_pred) simp_all
  then have "collect (map (simplify m) (o1 # os)) = Inr (o1 # os)"
    unfolding o(1) by (rule collect_fixpoints)
  then have "simplify m (ConcatExpr (o1 # os)) = Inr (ConcatExpr (merge_literals [] o1 os))"
    by (simp only: simplify.simps sum.case list.case)
  then show ?thesis by (simp only: o)
qed

lemma simplify_ListExpr_Inr:
  "simplify m (ListExpr items) = Inr e' \<Longrightarrow>
   \<exists>its. collect (map (simplify m) items) = Inr its \<and> e' = ListExpr its"
  by (cases "collect (map (simplify m) items)") auto

lemma simplify_PathExpr_Inr:
  "simplify m (PathExpr cs a) = Inr e' \<Longrightarrow>
   \<exists>its. collect (map (simplify m) cs) = Inr its \<and> e' = PathExpr its a"
  by (cases "collect (map (simplify m) cs)") auto

lemma simplify_ConcatExpr_Inr:
  "simplify m (ConcatExpr items) = Inr e' \<Longrightarrow>
   \<exists>i0 rest. collect (map (simplify m) items) = Inr (i0 # rest) \<and>
      e' = ConcatExpr (merge_literals [] i0 rest)"
proof (cases "collect (map (simplify m) items)")
  case (Inl a)
  assume "simplify m (ConcatExpr items) = Inr e'"
  with Inl show ?thesis by simp
next
  case (Inr its)
  assume "simplify m (ConcatExpr items) = Inr e'"
  with Inr show ?thesis by (cases its) auto
qed

text \<open>
  C8, as stated, fails: \<open>simplify\<close> replaces the reference \<open>$(y)\<close> by its value
  \<open>$(z)\<close> without simplifying that value, and a second run replaces \<open>$(z)\<close> by
  the literal \<open>c\<close>.
\<close>

theorem simplify_not_idempotent:
  "simplify example_module (ReferenceExpr ''y'' (ModuleRef 0)) = Inr (ReferenceExpr ''z'' (ModuleRef 0))
   \<and> simplify example_module (ReferenceExpr ''z'' (ModuleRef 0)) = Inr (LiteralExpr ''c'')
   \<and> simplify example_module (ReferenceExpr ''z'' (ModuleRef 0))
       \<noteq> simplify example_module (ReferenceExpr ''y'' (ModuleRef 0))"
  by (simp add: example_module_defs)

lemma simplify_unchanged_fixpoint:
  "simplify m e = Inr e' \<Longrightarrow> simplify m e = Inr e \<Longrightarrow> simplify m e' = Inr e'"
  by simp

text \<open>
  C8, amended: whenever \<open>simplify\<close> returns \<open>e'\<close> for \<open>e\<close>, and every reference it
  replaces inside \<open>e\<close> has a value that \<open>simplify\<close> leaves as it is (so in particular
  when \<open>e\<close> holds no reference), simplifying \<open>e'\<close> again returns \<open>e'\<close>.
\<close>

theorem simplify_idempotent_when_stable:
  "simplify_stable m e \<Longrightarrow> simplify m e = Inr e' \<Longrightarrow> simplify m e' = Inr e'"
proof (induction m e arbitrary: e' rule: simplify.induct)
  case (1 m items)
  from simplify_ListExpr_Inr [OF "1.prems"(2)] obtain its where
    its: "collect (map (simplify m) items) = Inr its" "e' = ListExpr its" by blast
  have "\<forall>y\<in>set its. simplify m y = Inr y"
    using simplify_children_fixpoints [OF "1.IH" _ its(1)] "1.prems"(1) by simp
  then show ?case unfolding its(2) by (rule simplify_ListExpr_fixpoint)
next
  case (2 m components anchor)
  from simplify_PathExpr_Inr [OF "2.prems"(2)] obtain cs where
    cs: "collect (map (simplify m) components) = Inr cs" "e' = PathExpr cs anchor" by blast
  have "\<forall>y\<in>set cs. simplify m y = Inr y"
    using simplify_children_fixpoints [OF "2.IH" _ cs(1)] "2.prems"(1) by simp
  then show ?case unfolding cs(2) by (rule simplify_PathExpr_fixpoint)
next
  case (3 m items)
  from simplify_ConcatExpr_Inr [OF "3.prems"(2)] obtain i0 rest where
    its: "collect (map (simplify m) items) = Inr (i0 # rest)"
    "e' = ConcatExpr (merge_literals [] i0 rest)" by blast
  have "\<forall>y\<in>set (i0 # rest). simplify m y = Inr y"
    using simplify_children_fixpoints [OF "3.IH" _ its(1)] "3.prems"(1) by simp
  then show ?case unfolding its(2) by (rule simplify_ConcatExpr_fixpoint)
next
  case (4 m var ctx)
  show ?case
  proof (cases "get_value m var ctx")
    case (Inl a)
    with "4.prems"(2) show ?thesis by simp
  next
    case (Inr ref)
    with "4.prems" show ?thesis by simp
  qed
qed (erule simplify_unchanged_fixpoint, simp)+

theorem simplify_idempotent_when_stable_witness:
  "simplify_stable example_module
     (ConcatExpr [LiteralExpr ''a'', LiteralExpr ''b'', ReferenceExpr ''z'' (ModuleRef 0),
                  PathExpr [ConcatExpr [LiteralExpr ''d'', LiteralExpr ''e'']] ANCHOR_SRCDIR])
   \<and> simplify example_module
     (ConcatExpr [LiteralExpr ''a'', LiteralExpr ''b'', ReferenceExpr ''z'' (ModuleRef 0),
                  PathExpr [ConcatExpr [LiteralExpr ''d'', LiteralExpr ''e'']] ANCHOR_SRCDIR])
     = Inr (ConcatExpr [LiteralExpr ''abc'', PathExpr [ConcatExpr [LiteralExpr ''de'']] ANCHOR_SRCDIR])
   \<and> simplify example_module
     (ConcatExpr [LiteralExpr ''abc'', PathExpr [ConcatExpr [LiteralExpr ''de'']] ANCHOR_SRCDIR])
     = Inr (ConcatExpr [LiteralExpr ''abc'', PathExpr [ConcatExpr [LiteralExpr ''de'']] ANCHOR_SRCDIR])"
  using simplify_idempotent_when_stable [of example_module
     "ConcatExpr [LiteralExpr ''a'', LiteralExpr ''b'', ReferenceExpr ''z'' (ModuleRef 0),
                  PathExpr [ConcatExpr [LiteralExpr ''d'', LiteralExpr ''e'']] ANCHOR_SRCDIR]"
     "ConcatExpr [LiteralExpr ''abc'', PathExpr [ConcatExpr [LiteralExpr ''de'']] ANCHOR_SRCDIR]"]
  by (simp add: example_module_defs)

section \<open>Properties of split\<close>

lemma split_loop_snoc:
  "split_loop f out (items @ [b]) =
     (case split_loop f out items of
        None \<Rightarrow> None
      | Some (Inl err) \<Rightarrow> Some (Inl err)
      | Some (Inr out') \<Rightarrow> split_loop f out' [b])"
  by (induction items arbitrary: out) (auto split: option.splits sum.splits)

text \<open>
  C5. Splitting a concatenation splits each child and splices at the boundary: when the
  items so far gave the segments \<open>out\<close> and the next child \<open>b\<close> gives
  \<open>b0 # bs\<close>, the last segment of \<open>out\<close> and \<open>b0\<close> become one
  \<open>ConcatExpr\<close>. With any fuel of two or more, splitting
  \<open>Concat[Lit "foo/bar", Lit "x/y"]\<close> by \<open>/\<close> gives the three segments
  \<open>Lit "foo"\<close>, \<open>Concat[Lit "bar", Lit "x"]\<close>, \<open>Lit "y"\<close>.
\<close>

theorem split_concat_splices:
  "(split (Suc n) m (ConcatExpr items) [c] = Some (Inr out) \<and> out \<noteq> []
      \<and> split n m b [c] = Some (Inr (b0 # bs))
    \<longrightarrow> split (Suc n) m (ConcatExpr (items @ [b])) [c]
          = Some (Inr (butlast out @ [ConcatExpr [last out, b0]] @ bs)))
   \<and> split (Suc (Suc k)) m (ConcatExpr [LiteralExpr ''foo/bar'', LiteralExpr ''x/y'']) ''/''
       = Some (Inr [LiteralExpr ''foo'',
                    ConcatExpr [LiteralExpr ''bar'', LiteralExpr ''x''],
                    LiteralExpr ''y''])"
  by (simp add: split_loop_snoc join_step_def str_split_def)

theorem split_concat_splices_witness:
  "split (Suc (Suc 0)) empty_model (ConcatExpr [LiteralExpr ''foo/bar'']) ''/''
     = Some (Inr [LiteralExpr ''foo'', LiteralExpr ''bar''])
   \<and> [LiteralExpr ''foo'', LiteralExpr ''bar''] \<noteq> []
   \<and> split (Suc 0) empty_model (LiteralExpr ''x/y'') ''/''
     = Some (Inr [LiteralExpr ''x'', LiteralExpr ''y''])
   \<and> split (Suc (Suc 0)) empty_model (ConcatExpr ([LiteralExpr ''foo/bar''] @ [LiteralExpr ''x/y''])) ''/''
     = Some (Inr [LiteralExpr ''foo'',
                  ConcatExpr [LiteralExpr ''bar'', LiteralExpr ''x''],
                  LiteralExpr ''y''])"
  using split_concat_splices [of "Suc 0" empty_model "[LiteralExpr ''foo/bar'']" "CHR ''/''"
      "[LiteralExpr ''foo'', LiteralExpr ''bar'']" "LiteralExpr ''x/y''"
      "LiteralExpr ''x''" "[LiteralExpr ''y'']" 0]
  by (simp add: join_step_def str_split_def)

section \<open>Properties of all_possible_values\<close>

lemma all_possible_values_reference:
  "get_value m var ctx = Inr v \<Longrightarrow>
   all_possible_values m (ReferenceExpr var ctx) = Inr [GeneratorObject v]"
  by simp

text \<open>
  C4. For the reference \<open>$(z)\<close> with \<open>z = c\<close> the claim says that the values of
  \<open>c\<close> are yielded, that is the literal \<open>c\<close>. The code yields one object, the
  generator over the value, which is not an expression.
\<close>

theorem all_possible_values_reference_yields_generator:
  "all_possible_values example_module (ReferenceExpr ''z'' (ModuleRef 0))
     = Inr [GeneratorObject (LiteralExpr ''c'')]
   \<and> all_possible_values example_module (LiteralExpr ''c'') = Inr [LiteralExpr ''c'']
   \<and> all_possible_values example_module (ReferenceExpr ''z'' (ModuleRef 0))
     \<noteq> all_possible_values example_module (LiteralExpr ''c'')"
  by (simp add: example_module_defs)

section \<open>Properties of the dependency ledger\<close>

lemmas ledger_defs =
  example_ledger_def example_filesystem_def needsUpdate_def os_stat_def os_path_isfile_def
  spec_needs_update_def key_unknown_def cmdline_differs_def output_missing_def
  dependency_missing_def output_older_than_bakefile_def output_older_than_dependency_def
  older_than_def oldest_effective_def effective_time_def Let_def

subsection \<open>load\<close>

text \<open>
  C7. When the first object of the file is not the current format version, \<open>load\<close>
  raises IOError, the three dictionaries are as before, and nothing after the version
  tag has been read.
\<close>

theorem load_version_mismatch:
  "v \<noteq> PInt DEPS_FORMAT_VERSION \<Longrightarrow> load (Some (v # rest)) l = (Some IOError, l, rest)"
  by (simp add: load_def cPickle_load_def)

theorem load_version_mismatch_witness:
  "PInt 3 \<noteq> PInt DEPS_FORMAT_VERSION
   \<and> load (Some (PInt 3 # tl old_ledger_file)) example_globals
       = (Some IOError, example_globals, tl old_ledger_file)"
  using load_version_mismatch [of "PInt 3" "tl old_ledger_file" example_globals]
  by (simp add: DEPS_FORMAT_VERSION_def)

subsection \<open>needsUpdate\<close>

text \<open>
  C9. A key that is known to both dictionaries and whose record has no output: whenever
  the bakefile can be read by \<open>os.stat\<close>, \<open>needsUpdate\<close> returns true, whatever the
  command line is (so also when it is the recorded one).
\<close>

theorem needsUpdate_empty_outputs:
  assumes "map_of (deps_db l) (bakefile, format) = Some info" and "outputs info = []"
    and "map_of (cmdlines_db l) (bakefile, format) = Some recorded"
    and "fs bakefile = Some st"
  shows "needsUpdate l fs bakefile format cmdline = Inr True"
  using assms by (simp add: needsUpdate_def os_stat_def)

theorem needsUpdate_empty_outputs_witness:
  "map_of (deps_db example_ledger) (''empty.bkl'', ''gnu'') = Some \<lparr>deps = [], outputs = []\<rparr>
   \<and> outputs \<lparr>deps = [], outputs = []\<rparr> = []
   \<and> map_of (cmdlines_db example_ledger) (''empty.bkl'', ''gnu'') = Some [''--foo'']
   \<and> example_filesystem ''empty.bkl'' = Some \<lparr>is_regular = True, st_mtime = 105\<rparr>
   \<and> needsUpdate example_ledger example_filesystem ''empty.bkl'' ''gnu'' [''--foo''] = Inr True"
  using needsUpdate_empty_outputs [of example_ledger "''empty.bkl''" "''gnu''"
      "\<lparr>deps = [], outputs = []\<rparr>" "[''--foo'']" example_filesystem
      "\<lparr>is_regular = True, st_mtime = 105\<rparr>" "[''--foo'']"]
  by (simp add: example_ledger_def example_filesystem_def)

lemma outputs_loop_missing:
  "list_ex (\<lambda>(f, meth). \<not> os_path_isfile fs f) outs \<Longrightarrow>
   outputs_loop mt fs acc outs = Return True"
proof (induction outs arbitrary: acc)
  case Nil
  then show ?case by simp
next
  case (Cons a outs)
  obtain f meth where a: "a = (f, meth)" by (cases a)
  show ?case
  proof (cases "os_path_isfile fs f")
    case False
    then show ?thesis using a by simp
  next
    case True
    then obtain st where st: "fs f = Some st" by (auto simp: os_path_isfile_def split: option.splits)
    from True Cons.prems a have "list_ex (\<lambda>(f, meth). \<not> os_path_isfile fs f) outs" by simp
    from Cons.IH [OF this] show ?thesis using a True st by (simp add: os_stat_def Let_def)
  qed
qed

lemma oldest_opt_min: "opt_min (Some t) (oldest ts) = oldest (t # ts)"
  by (simp add: opt_min_def split: option.splits)

lemma opt_min_assoc: "opt_min (opt_min a b) c = opt_min a (opt_min b c)"
  by (auto simp: opt_min_def split: option.splits)

lemma effective_time_present:
  "fs f = Some st \<Longrightarrow> \<exists>t. effective_time l fs f = Some t"
  by (cases "map_of (modtimes_db l) f") (simp_all add: effective_time_def)

lemma isfile_present: "os_path_isfile fs f \<Longrightarrow> \<exists>st. fs f = Some st"
  by (cases "fs f") (simp_all add: os_path_isfile_def)

lemma outputs_loop_present:
  "\<not> list_ex (\<lambda>(f, meth). \<not> os_path_isfile fs f) outs \<Longrightarrow>
   outputs_loop (modtimes_db l) fs acc outs =
     Continue (opt_min acc (oldest (List.map_filter (\<lambda>(f, meth). effective_time l fs f) outs)))"
proof (induction outs arbitrary: acc)
  case Nil
  then show ?case by (simp add: opt_min_def split: option.splits)
next
  case (Cons a outs)
  obtain f meth where a: "a = (f, meth)" by (cases a)
  from Cons.prems a have isf: "os_path_isfile fs f"
    and rest: "\<not> list_ex (\<lambda>(f, meth). \<not> os_path_isfile fs f) outs" by simp_all
  from isf obtain st where st: "fs f = Some st" by (auto simp: os_path_isfile_def split: option.splits)
  obtain t where t: "effective_time l fs f = Some t"
    using effective_time_present [of fs f st l] st by blast
  have step: "outputs_loop (modtimes_db l) fs acc (a # outs)
      = outputs_loop (modtimes_db l) fs (opt_min acc (Some t)) outs"
    using a isf st t
    by (auto simp: os_stat_def Let_def effective_time_def opt_min_def max_def min_def split: option.splits)
  have "opt_min (opt_min acc (Some t)) (oldest (List.map_filter (\<lambda>(f, meth). effective_time l fs f) outs))
      = opt_min acc (oldest (List.map_filter (\<lambda>(f, meth). effective_time l fs f) (a # outs)))"
    using a t by (simp add: opt_min_assoc oldest_opt_min del: oldest.simps)
  then show ?case using step Cons.IH [OF rest] by simp
qed

lemma deps_loop_iff:
  "deps_loop fs t ds \<longleftrightarrow>
     list_ex (\<lambda>f. \<not> os_path_isfile fs f) ds \<or> list_ex (older_than fs (Some t)) ds"
  by (induction ds) (auto simp: os_stat_def os_path_isfile_def older_than_def split: option.splits)

lemma oldest_None_iff: "oldest ts = None \<longleftrightarrow> ts = []"
  by (cases ts) (auto split: option.splits)

lemma map_filter_present_Nil:
  assumes "\<not> list_ex (\<lambda>(f, meth). \<not> os_path_isfile fs f) outs"
  shows "List.map_filter (\<lambda>(f, meth). effective_time l fs f) outs = [] \<longleftrightarrow> outs = []"
proof (cases outs)
  case Nil
  then show ?thesis by simp
next
  case (Cons a rest)
  obtain f meth where a: "a = (f, meth)" by (cases a)
  from assms Cons a have "os_path_isfile fs f" by simp
  then obtain st where "fs f = Some st" using isfile_present by blast
  then obtain t where "effective_time l fs f = Some t"
    using effective_time_present [of fs f st l] by blast
  then show ?thesis using Cons a by simp
qed

lemma needsUpdate_decision:
  "needsUpdate l fs bakefile format cmdline = Inr False \<longleftrightarrow>
     \<not> spec_needs_update l fs bakefile format cmdline
     \<and> fs bakefile \<noteq> None
     \<and> (\<exists>info. map_of (deps_db l) (bakefile, format) = Some info \<and> outputs info \<noteq> [])"
proof (cases "map_of (deps_db l) (bakefile, format)")
  case None
  then show ?thesis by (simp add: needsUpdate_def spec_needs_update_def key_unknown_def)
next
  case (Some info)
  note info = this
  show ?thesis
  proof (cases "map_of (cmdlines_db l) (bakefile, format)")
    case None
    then show ?thesis using info by (simp add: needsUpdate_def spec_needs_update_def key_unknown_def)
  next
    case (Some recorded)
    note recorded = this
    show ?thesis
    proof (cases "cmdline = recorded")
      case False
      then show ?thesis using info recorded
        by (auto simp: needsUpdate_def spec_needs_update_def cmdline_differs_def)
    next
      case True
      note same = this
      show ?thesis
      proof (cases "fs bakefile")
        case None
        then show ?thesis using info recorded same by (simp add: needsUpdate_def os_stat_def)
      next
        case (Some st)
        note st = this
        have spec: "spec_needs_update l fs bakefile format cmdline \<longleftrightarrow>
            output_missing fs info \<or> dependency_missing fs info \<or>
            output_older_than_bakefile l fs info bakefile \<or>
            output_older_than_dependency l fs info"
          using info recorded same
          by (simp add: spec_needs_update_def key_unknown_def cmdline_differs_def)
        show ?thesis
        proof (cases "output_missing fs info")
          case True
          then have "outputs_loop (modtimes_db l) fs None (outputs info) = Return True"
            unfolding output_missing_def by (rule outputs_loop_missing)
          then show ?thesis using info recorded same st True spec
            by (simp add: needsUpdate_def os_stat_def)
        next
          case False
          then have present: "\<not> list_ex (\<lambda>(f, meth). \<not> os_path_isfile fs f) (outputs info)"
            by (simp add: output_missing_def)
          have loop: "outputs_loop (modtimes_db l) fs None (outputs info) = Continue (oldest_effective l fs info)"
            using outputs_loop_present [OF present, of l None]
            by (simp add: opt_min_def oldest_effective_def)
          show ?thesis
          proof (cases "oldest_effective l fs info")
            case None
            then have "outputs info = []"
              using map_filter_present_Nil [OF present, of l]
              by (simp add: oldest_effective_def oldest_None_iff)
            then show ?thesis using info recorded same st loop None
              by (simp add: needsUpdate_def os_stat_def)
          next
            case (Some t)
            then have ne: "outputs info \<noteq> []"
              by (auto simp: oldest_effective_def)
            show ?thesis using info recorded same st loop Some ne spec False
              by (simp add: needsUpdate_def os_stat_def deps_loop_iff
                  output_older_than_bakefile_def output_older_than_dependency_def
                  dependency_missing_def older_than_def)
          qed
        qed
      qed
    qed
  qed
qed

lemma deps_loop_False:
  "\<forall>d\<in>set ds. os_path_isfile fs d \<and> \<not> older_than fs (Some t) d \<Longrightarrow> \<not> deps_loop fs t ds"
  by (simp add: deps_loop_iff list_ex_iff)

lemma needsUpdate_touched_output:
  assumes "map_of (deps_db l) (bakefile, format) = Some info"
    and "outputs info = [(out, meth)]"
    and "map_of (cmdlines_db l) (bakefile, format) = Some cmdline"
    and "map_of (modtimes_db l) out = Some T"
    and "fs out = Some \<lparr>is_regular = True, st_mtime = real_of_int T + 10\<rparr>"
    and "fs bakefile = Some \<lparr>is_regular = True, st_mtime = real_of_int T + 5\<rparr>"
    and "\<forall>d\<in>set (deps info). os_path_isfile fs d \<and> \<not> older_than fs (Some (real_of_int T + 10)) d"
  shows "needsUpdate l fs bakefile format cmdline = Inr False"
  using assms deps_loop_False [of "deps info" fs "real_of_int T + 10"]
  by (simp add: needsUpdate_def os_stat_def os_path_isfile_def Let_def)

text \<open>
  C2, as stated, fails: for the key \<open>(empty.bkl, gnu)\<close>, which has no declared output,
  none of the six conditions of the specification holds, and \<open>needsUpdate\<close> returns
  true.
\<close>

theorem needsUpdate_true_though_checks_pass:
  "needsUpdate example_ledger example_filesystem ''empty.bkl'' ''gnu'' [''--foo''] = Inr True
   \<and> \<not> spec_needs_update example_ledger example_filesystem ''empty.bkl'' ''gnu'' [''--foo'']"
  by (simp add: ledger_defs)

text \<open>
  C2, amended. \<open>needsUpdate\<close> returns false exactly when the bakefile is on disk, the
  record of the key declares at least one output, and none of the six conditions holds,
  where the effective time of an output is the maximum of its recorded and its on-disk
  time. In particular it returns false for a key whose only output was recorded at \<open>T\<close>
  and is on disk with time \<open>T + 10\<close>, when the bakefile has time \<open>T + 5\<close>, the
  command line is the recorded one, and every declared dependency is on disk and not
  newer than \<open>T + 10\<close>.
\<close>

theorem needsUpdate_False_iff:
  "(needsUpdate l fs bakefile format cmdline = Inr False \<longleftrightarrow>
      \<not> spec_needs_update l fs bakefile format cmdline
      \<and> fs bakefile \<noteq> None
      \<and> (\<exists>info. map_of (deps_db l) (bakefile, format) = Some info \<and> outputs info \<noteq> []))
   \<and> (map_of (deps_db l) (bakefile, format) = Some info'
        \<and> outputs info' = [(out, meth)]
        \<and> map_of (cmdlines_db l) (bakefile, format) = Some cmdline
        \<and> map_of (modtimes_db l) out = Some T
        \<and> fs out = Some \<lparr>is_regular = True, st_mtime = real_of_int T + 10\<rparr>
        \<and> fs bakefile = Some \<lparr>is_regular = True, st_mtime = real_of_int T + 5\<rparr>
        \<and> (\<forall>d\<in>set (deps info').
              os_path_isfile fs d \<and> \<not> older_than fs (Some (real_of_int T + 10)) d)
      \<longrightarrow> needsUpdate l fs bakefile format cmdline = Inr False)"
proof (intro conjI impI)
  show "needsUpdate l fs bakefile format cmdline = Inr False \<longleftrightarrow>
      \<not> spec_needs_update l fs bakefile format cmdline
      \<and> fs bakefile \<noteq> None
      \<and> (\<exists>info. map_of (deps_db l) (bakefile, format) = Some info \<and> outputs info \<noteq> [])"
    by (rule needsUpdate_decision)
next
  assume h: "map_of (deps_db l) (bakefile, format) = Some info'
        \<and> outputs info' = [(out, meth)]
        \<and> map_of (cmdlines_db l) (bakefile, format) = Some cmdline
        \<and> map_of (modtimes_db l) out = Some T
        \<and> fs out = Some \<lparr>is_regular = True, st_mtime = real_of_int T + 10\<rparr>
        \<and> fs bakefile = Some \<lparr>is_regular = True, st_mtime = real_of_int T + 5\<rparr>
        \<and> (\<forall>d\<in>set (deps info').
              os_path_isfile fs d \<and> \<not> older_than fs (Some (real_of_int T + 10)) d)"
  show "needsUpdate l fs bakefile format cmdline = Inr False"
    by (rule needsUpdate_touched_output [of l bakefile format info' out meth cmdline T fs])
       (simp_all add: h)
qed

theorem needsUpdate_False_iff_witness:
  "needsUpdate example_ledger example_filesystem ''proj.bkl'' ''gnu'' [''--foo''] = Inr False
   \<and> \<not> spec_needs_update example_ledger example_filesystem ''proj.bkl'' ''gnu'' [''--foo'']
   \<and> example_filesystem ''proj.bkl'' \<noteq> None
   \<and> map_of (deps_db example_ledger) (''proj.bkl'', ''gnu'')
       = Some \<lparr>deps = [''common.bkl''], outputs = [(''out.mk'', ''replace'')]\<rparr>
   \<and> map_of (cmdlines_db example_ledger) (''proj.bkl'', ''gnu'') = Some [''--foo'']
   \<and> map_of (modtimes_db example_ledger) ''out.mk'' = Some 100
   \<and> example_filesystem ''out.mk'' = Some \<lparr>is_regular = True, st_mtime = real_of_int 100 + 10\<rparr>
   \<and> example_filesystem ''proj.bkl'' = Some \<lparr>is_regular = True, st_mtime = real_of_int 100 + 5\<rparr>
   \<and> os_path_isfile example_filesystem ''common.bkl''
   \<and> \<not> older_than example_filesystem (Some (real_of_int 100 + 10)) ''common.bkl''"
  using needsUpdate_False_iff [of example_ledger example_filesystem "''proj.bkl''" "''gnu''"
      "[''--foo'']" "\<lparr>deps = [''common.bkl''], outputs = [(''out.mk'', ''replace'')]\<rparr>"
      "''out.mk''" "''replace''" 100]
  by (simp add: ledger_defs)

section \<open>Properties of the builder\<close>

lemma resolve_variable_local:
  "get_variable m s n = Some v \<Longrightarrow> resolve_variable m s n = Some v"
  by (subst resolve_variable.simps) simp

lemma resolve_variable_None_local:
  "resolve_variable m s n = None \<Longrightarrow> get_variable m s n = None"
  by (cases "get_variable m s n") (simp_all add: resolve_variable_local)

lemma get_variable_add_variable:
  "get_variable (add_variable m s v) s (var_name v) = Some v"
  by (simp add: get_variable_def add_variable_def)

subsection \<open>handle_children and the context\<close>

lemma handle_children_context:
  "builder_context (snd (handle_children children ctx b)) = builder_context b"
  by (simp add: split_beta Let_def)

lemma assign_value_context:
  "builder_context (snd (assign_value varname is_append val b)) = builder_context b"
  by (simp add: assign_value_def Let_def split_beta split: sum.splits)

lemma on_assignment_context:
  "builder_context (snd (on_assignment varname value_ast is_append b)) = builder_context b"
  by (simp add: on_assignment_def assign_value_context split: sum.splits list.splits)

lemma handle_node_context:
  "builder_context (snd (handle_node n b)) = builder_context b"
proof (cases n)
  case (AssignmentNode var val)
  then show ?thesis by (simp add: on_assignment_context)
next
  case (AppendNode var val)
  then show ?thesis by (simp add: on_assignment_context)
next
  case (TargetNode name type_name content)
  have "builder_context (snd (case handle_children content t b1 of
            (Some err, b2) \<Rightarrow> (Some err, b2)
          | (None, b2) \<Rightarrow> (None, restore_cond_stack cs b2))) = builder_context b1" for t b1 cs
    using handle_children_context [of content t b1]
    by (cases "handle_children content t b1")
       (auto simp: restore_cond_stack_def simp del: handle_children.simps split: option.splits)
  then show ?thesis using TargetNode
    by (simp add: Let_def reset_cond_stack_def split_beta del: handle_children.simps
        split: option.splits sum.splits)
next
  case (IfNode cond content)
  have "builder_context (snd (case handle_children content t b1 of
            (Some err, b2) \<Rightarrow> (Some err, b2)
          | (None, b2) \<Rightarrow> (None, pop_cond b2))) = builder_context b1" for t b1
    using handle_children_context [of content t b1]
    by (cases "handle_children content t b1")
       (auto simp: pop_cond_def simp del: handle_children.simps split: option.splits)
  then show ?thesis using IfNode
    by (simp add: Let_def push_cond_def del: handle_children.simps split: sum.splits)
next
  case (SubmoduleNode fname)
  then show ?thesis by (simp split: prod.splits option.splits)
next
  case NilNode
  then show ?thesis by simp
qed

lemma contexts_seen_constant:
  "list_all (\<lambda>c. c = builder_context b) (contexts_seen children b)"
proof (induction children arbitrary: b)
  case Nil
  then show ?case by simp
next
  case (Cons n rest)
  show ?case
  proof (cases "handle_node n b")
    case (Pair r b')
    have ctx: "builder_context b' = builder_context b"
      using handle_node_context [of n b] Pair by simp
    show ?thesis
    proof (cases r)
      case None
      then show ?thesis using Pair Cons.IH [of b'] ctx by simp
    next
      case (Some err)
      then show ?thesis using Pair by simp
    qed
  qed
qed

text \<open>
  C10. Whatever the children do, and whether the loop ends normally or by an exception,
  the context of the builder after \<open>handle_children\<close> is the context before it; the
  loop runs from the state whose context is the supplied scope, and every child it
  reaches is handled in that context (no handler leaves another context behind).
\<close>

theorem handle_children_restores_context:
  "builder_context (snd (handle_children children ctx b)) = builder_context b
   \<and> list_all (\<lambda>c. c = ctx) (contexts_seen children (b\<lparr>builder_context := ctx\<rparr>))
   \<and> handle_children children ctx b =
       (fst (for_children children (b\<lparr>builder_context := ctx\<rparr>)),
        (snd (for_children children (b\<lparr>builder_context := ctx\<rparr>)))\<lparr>builder_context := builder_context b\<rparr>)"
  using contexts_seen_constant [of "b\<lparr>builder_context := ctx\<rparr>" children]
  by (simp add: split_beta Let_def)

subsection \<open>Assignments\<close>

lemma active_if_cond_the_model:
  "active_if_cond (b\<lparr>the_model := m\<rparr>) = active_if_cond b"
  by (simp add: active_if_cond_def)

lemma assign_value_unknown:
  assumes h3: "get_variable (the_model b) (builder_context b) varname = None"
    and h4: "resolve_variable (the_model b) (builder_context b) varname = None"
    and h5: "get_prop (the_model b) (builder_context b) varname = None"
    and h6: "active_if_cond b = None \<or> \<not> is_ListExpr val"
  shows "assign_value varname True val b
           = (Some (ParserError (''unknown variable '' @ varname)), b)"
proof -
  have lk: "lookup_for_assignment (the_model b) (builder_context b) varname True hc
      = (None, None, the_model b)" for hc
    using h3 h4 h5 by (simp add: lookup_for_assignment_def Let_def)
  have cr: "create_if_necessary (the_model b) (builder_context b) varname True w None None
      = Inl (ParserError (''unknown variable '' @ varname))" for w
    by (simp add: create_if_necessary_def)
  obtain w where cv: "conditional_value (active_if_cond b) True val None = Inr w"
    using h6 by (cases "active_if_cond b"; cases val) (auto simp: conditional_value_def)
  show ?thesis by (simp add: assign_value_def lk cv cr active_if_cond_the_model Let_def)
qed

lemma assign_value_conditional_list:
  assumes c: "active_if_cond b = Some c"
  shows "fst (assign_value varname True (ListExpr items) b) = Some TypeError"
    and "get_prop (the_model b) (builder_context b) varname = None \<Longrightarrow>
         snd (assign_value varname True (ListExpr items) b) = b"
proof -
  obtain var prev m where lk:
    "lookup_for_assignment (the_model b) (builder_context b) varname True True = (var, prev, m)"
    by (cases "lookup_for_assignment (the_model b) (builder_context b) varname True True") auto
  have cv: "conditional_value (Some c) True (ListExpr items) pv = Inl TypeError" for pv
    by (simp add: conditional_value_def)
  have av: "assign_value varname True (ListExpr items) b = (Some TypeError, b\<lparr>the_model := m\<rparr>)"
    using c lk by (simp add: assign_value_def cv active_if_cond_the_model Let_def)
  show "fst (assign_value varname True (ListExpr items) b) = Some TypeError"
    using av by simp
  show "snd (assign_value varname True (ListExpr items) b) = b"
    if "get_prop (the_model b) (builder_context b) varname = None"
  proof -
    have "m = the_model b" using lk that
      by (auto simp: lookup_for_assignment_def Let_def split: option.splits)
    then show ?thesis using av by simp
  qed
qed

lemma value_of_add_variable:
  "var_name v = n \<Longrightarrow> value_of (add_variable m s v) s n = Some (var_value v)"
  by (simp add: value_of_def get_variable_def add_variable_def)

lemma on_assignment_nonempty:
  assumes "varname \<noteq> []" and "build_expression (builder_context b) value_ast = Inr val"
  shows "\<exists>b1. on_assignment varname value_ast is_append b = assign_value varname is_append val b1
           \<and> the_model b1 = the_model b \<and> builder_context b1 = builder_context b
           \<and> if_stack b1 = if_stack b"
proof -
  obtain c0 cs where n: "varname = c0 # cs" using assms(1) by (cases varname) auto
  define b1 where "b1 = (if c0 = CHR ''_'' then b\<lparr>warnings := warnings b @ [varname]\<rparr> else b)"
  have "on_assignment varname value_ast is_append b = assign_value varname is_append val b1"
    using assms(2) by (simp add: on_assignment_def b1_def n)
  moreover have "the_model b1 = the_model b" "builder_context b1 = builder_context b"
    "if_stack b1 = if_stack b" by (simp_all add: b1_def)
  ultimately show ?thesis by blast
qed

lemma assign_value_set_general:
  assumes c: "active_if_cond b = Some c"
    and wf: "\<forall>w. get_variable (the_model b) (builder_context b) varname = Some w \<longrightarrow> var_name w = varname"
    and wp: "\<forall>q. get_prop (the_model b) (builder_context b) varname = Some q \<longrightarrow> prop_name q = varname"
  shows "fst (assign_value varname False val b) = None
       \<and> value_of (the_model (snd (assign_value varname False val b))) (builder_context b) varname
          = Some (IfExpr c val
                   (case resolve_variable (the_model b) (builder_context b) varname of
                      Some p \<Rightarrow> var_value p
                    | None \<Rightarrow>
                        (case get_prop (the_model b) (builder_context b) varname of
                           Some q \<Rightarrow> prop_default_expr q (builder_context b)
                         | None \<Rightarrow> NullExpr)))"
proof (cases "get_variable (the_model b) (builder_context b) varname")
  case (Some v)
  then have rs: "resolve_variable (the_model b) (builder_context b) varname = Some v"
    by (rule resolve_variable_local)
  have nm: "var_name v = varname" using wf Some by simp
  have lk: "lookup_for_assignment (the_model b) (builder_context b) varname False hc
      = (Some v, Some v, the_model b)" for hc
    using Some by (simp add: lookup_for_assignment_def Let_def)
  have "assign_value varname False val b
      = (None, b\<lparr>the_model := add_variable (the_model b) (builder_context b)
            (v\<lparr>var_value := IfExpr c val (var_value v)\<rparr>)\<rparr>)"
    by (simp add: assign_value_def lk c conditional_value_def create_if_necessary_def
        modify_value_def active_if_cond_the_model Let_def)
  then show ?thesis using rs nm by (simp add: value_of_add_variable)
next
  case None
  note loc = this
  define prev where "prev = resolve_variable (the_model b) (builder_context b) varname"
  show ?thesis
  proof (cases "get_prop (the_model b) (builder_context b) varname")
    case None
    define no where "no = (case prev of Some p \<Rightarrow> var_value p | None \<Rightarrow> NullExpr)"
    define nv where "nv = (case prev of Some p \<Rightarrow> Variable varname (var_value p) (var_type p)
                            | None \<Rightarrow> Variable varname (IfExpr c val no) AnyType)"
    have nvn: "var_name nv = varname" by (simp add: nv_def Variable_def split: option.splits)
    have lk: "lookup_for_assignment (the_model b) (builder_context b) varname False hc
        = (None, prev, the_model b)" for hc
      using loc None by (simp add: lookup_for_assignment_def prev_def Let_def)
    have cr: "create_if_necessary (the_model b) (builder_context b) varname False
          (IfExpr c val no) None prev
        = Inr (nv, add_variable (the_model b) (builder_context b) nv)"
      by (simp add: create_if_necessary_def nv_def Let_def)
    have "assign_value varname False val b
        = (None, b\<lparr>the_model := add_variable (add_variable (the_model b) (builder_context b) nv)
              (builder_context b) (nv\<lparr>var_value := IfExpr c val no\<rparr>)\<rparr>)"
      using cr
      by (simp add: assign_value_def lk c conditional_value_def modify_value_def
          active_if_cond_the_model no_def Let_def)
    then show ?thesis using nvn None
      by (simp add: value_of_add_variable prev_def no_def split: option.splits)
  next
    case (Some q)
    define pv where "pv = Variable_from_property q (prop_default_expr q (builder_context b))"
    define m1 where "m1 = add_variable (the_model b) (builder_context b) pv"
    define prev' where "prev' = (case prev of None \<Rightarrow> Some pv | Some p \<Rightarrow> Some p)"
    define no where "no = (case prev of Some p \<Rightarrow> var_value p
                            | None \<Rightarrow> prop_default_expr q (builder_context b))"
    have pvn: "var_name pv = varname" using wp Some
      by (simp add: pv_def Variable_from_property_def Variable_def)
    have hc: "(active_if_cond b \<noteq> None) = True" using c by simp
    have lk: "lookup_for_assignment (the_model b) (builder_context b) varname False True
        = (Some pv, prev', m1)"
      using loc Some
      by (simp add: lookup_for_assignment_def prev_def prev'_def pv_def m1_def Let_def
          split: option.splits)
    have no': "(case prev' of Some p \<Rightarrow> var_value p | None \<Rightarrow> NullExpr) = no"
      by (simp add: prev'_def no_def pv_def Variable_from_property_def Variable_def
          split: option.splits)
    have "assign_value varname False val b
        = (None, b\<lparr>the_model := add_variable m1 (builder_context b)
              (pv\<lparr>var_value := IfExpr c val no\<rparr>)\<rparr>)"
      by (simp add: assign_value_def hc lk c conditional_value_def create_if_necessary_def
          modify_value_def active_if_cond_the_model no' Let_def)
    then show ?thesis using pvn Some
      by (simp add: value_of_add_variable prev_def no_def split: option.splits)
  qed
qed


lemma append_to_unknown_variable_without_list_condition:
  assumes h1: "varname \<noteq> []"
    and h2: "build_expression (builder_context b) value_ast = Inr v"
    and h3: "get_variable (the_model b) (builder_context b) varname = None"
    and h4: "resolve_variable (the_model b) (builder_context b) varname = None"
    and h5: "get_prop (the_model b) (builder_context b) varname = None"
    and h6: "active_if_cond b = None \<or> \<not> is_ListExpr v"
  shows "fst (handle_node (AppendNode varname value_ast) b)
           = Some (ParserError (''unknown variable '' @ varname))
         \<and> the_model (snd (handle_node (AppendNode varname value_ast) b)) = the_model b"
proof -
  obtain c0 cs where n: "varname = c0 # cs" using h1 by (cases varname) auto
  define b1 where "b1 = (if c0 = CHR ''_'' then b\<lparr>warnings := warnings b @ [varname]\<rparr> else b)"
  have same: "the_model b1 = the_model b" "builder_context b1 = builder_context b"
    "active_if_cond b1 = active_if_cond b"
    by (simp_all add: b1_def active_if_cond_def)
  have "assign_value varname True v b1 = (Some (ParserError (''unknown variable '' @ varname)), b1)"
    by (rule assign_value_unknown) (simp_all add: same h3 h4 h5 h6)
  moreover have "handle_node (AppendNode varname value_ast) b = assign_value varname True v b1"
    using h2 by (simp add: on_assignment_def b1_def n)
  ultimately show ?thesis by (simp add: same)
qed

lemma conditional_list_append_raises:
  assumes h1: "varname \<noteq> []"
    and h2: "build_expression (builder_context b) value_ast = Inr (ListExpr items)"
    and h3: "active_if_cond b = Some c"
  shows "fst (handle_node (AppendNode varname value_ast) b) = Some TypeError"
proof -
  from on_assignment_nonempty [OF h1 h2, of True]
  obtain b1 where b1: "on_assignment varname value_ast True b = assign_value varname True (ListExpr items) b1"
    "if_stack b1 = if_stack b"
    by blast
  have "active_if_cond b1 = Some c" using h3 b1(2) by (simp add: active_if_cond_def)
  from assign_value_conditional_list(1) [OF this, of varname items] show ?thesis
    using b1(1) by simp
qed



end
